theory Spec2Isabelle
  imports Main
begin

section \<open>Python strings and the \<open>re\<close> module\<close>

text \<open>
  The interpreter is written in Python. Exceptions are values of \<open>error\<close>; no function
  of the repository catches one, so a raised exception ends the run.
  \<open>NotModelled\<close> marks Python behaviour outside the fragment embedded here (a
  \<open>SyntaxError\<close> of \<open>eval\<close>, a float produced by true division, a call inside
  an evaluated expression): no theorem below draws a conclusion from it.
  Strings are ASCII.
\<close>

datatype error =
    IndexError | KeyError | NameError | TypeError | ValueError | AttributeError
  | ZeroDivisionError | NotModelled

fun in_range :: "char \<Rightarrow> nat \<Rightarrow> nat \<Rightarrow> bool" where
  "in_range c lo hi = (lo \<le> of_char c \<and> (of_char c :: nat) \<le> hi)"

fun is_digit :: "char \<Rightarrow> bool" where
  "is_digit c = in_range c 48 57"

text \<open>\<open>\s\<close> and \<open>str.strip\<close>: the white space of Python below code point 256.\<close>

fun is_space :: "char \<Rightarrow> bool" where
  "is_space c = (in_range c 9 13 \<or> in_range c 28 32 \<or> of_char c = (133::nat) \<or> of_char c = (160::nat))"

text \<open>\<open>name = "[A-Za-z0-9_]"\<close> (parse.py, line 9).\<close>

fun is_name_char :: "char \<Rightarrow> bool" where
  "is_name_char c = (in_range c 65 90 \<or> in_range c 97 122 \<or> in_range c 48 57 \<or> c = CHR ''_'')"

text \<open>
  \<open>r_expr = "[A=Za-z0-9_ \t\(\)\+\-\*/]"\<close> (parse.py, line 10): the class lists
  \<open>A\<close>, \<open>=\<close> and \<open>Z\<close>, not the range \<open>A-Z\<close>.
\<close>

fun is_expr_char :: "char \<Rightarrow> bool" where
  "is_expr_char c = (c = CHR ''A'' \<or> c = CHR ''='' \<or> c = CHR ''Z'' \<or> in_range c 97 122
     \<or> in_range c 48 57 \<or> c = CHR ''_'' \<or> c = CHR '' '' \<or> c = CHR 0x09 \<or> c = CHR ''(''
     \<or> c = CHR '')'' \<or> c = CHR ''+'' \<or> c = CHR ''-'' \<or> c = CHR ''*'' \<or> c = CHR ''/'')"

datatype cclass = Lit char | NameC | ExprC | SpaceC | AnyC

fun in_class :: "cclass \<Rightarrow> char \<Rightarrow> bool" where
  "in_class (Lit d) c = (c = d)"
| "in_class NameC c = is_name_char c"
| "in_class ExprC c = is_expr_char c"
| "in_class SpaceC c = is_space c"
| "in_class AnyC c = (c \<noteq> CHR 0x0A)"

text \<open>
  Regular expressions, and Python's backtracking matcher: \<open>ms p s\<close> lists, in the order
  the matcher tries them, the rests of \<open>s\<close> after each way \<open>p\<close> matches a prefix of
  \<open>s\<close>. Alternatives are tried left to right and repetition is greedy, so the head of
  the list is the match \<open>re.match\<close> returns.
\<close>

datatype rx = Eps | Atom cclass | Seq rx rx | Alt rx rx | Opt rx | Star rx

function ms :: "rx \<Rightarrow> string \<Rightarrow> string list" where
  "ms Eps s = [s]"
| "ms (Atom k) s = (case s of [] \<Rightarrow> [] | c # cs \<Rightarrow> if in_class k c then [cs] else [])"
| "ms (Seq a b) s = concat (map (ms b) (ms a s))"
| "ms (Alt a b) s = ms a s @ ms b s"
| "ms (Opt a) s = ms a s @ [s]"
| "ms (Star a) s =
     concat (map (\<lambda>r. if length r < length s then ms (Star a) r else []) (ms a s)) @ [s]"
  by pat_completeness auto
termination
  by (relation "measures [\<lambda>(r, s). size r, \<lambda>(r, s). length s]") auto

definition rx_plus :: "rx \<Rightarrow> rx" where
  "rx_plus a = Seq a (Star a)"

definition lit :: "char \<Rightarrow> rx" where
  "lit c = Atom (Lit c)"

fun lits :: "string \<Rightarrow> rx" where
  "lits [] = Eps"
| "lits (c # cs) = Seq (lit c) (lits cs)"

fun seqs :: "rx list \<Rightarrow> rx" where
  "seqs [] = Eps"
| "seqs [p] = p"
| "seqs (p # ps) = Seq p (seqs ps)"

fun alts :: "rx list \<Rightarrow> rx" where
  "alts [] = Eps"
| "alts [p] = p"
| "alts (p # ps) = Alt p (alts ps)"

text \<open>\<open>re.match(p, s)\<close>: the matched prefix (\<open>group(0)\<close>), or \<open>None\<close>.\<close>

fun re_match :: "rx \<Rightarrow> string \<Rightarrow> string option" where
  "re_match p s = (case ms p s of [] \<Rightarrow> None | r # _ \<Rightarrow> Some (take (length s - length r) s))"

text \<open>
  \<open>re.split\<close> and \<open>re.findall\<close> scan for the leftmost matches, one after the other.
  \<open>skip\<close> counts the characters of the current match still to pass over and \<open>acc\<close>
  holds the piece before the next match, reversed. Every pattern of the repository
  matches at least one character; an empty match is passed over.
  \<open>re_split_groups\<close> is \<open>re.split\<close> for a pattern that is one capturing group (or an
  alternative of capturing groups): the matched text is part of the result.
\<close>

fun re_split_from :: "rx \<Rightarrow> string \<Rightarrow> nat \<Rightarrow> string \<Rightarrow> string list" where
  "re_split_from p [] skip acc = [rev acc]"
| "re_split_from p (c # cs) skip acc =
     (if 0 < skip then re_split_from p cs (skip - 1) acc
      else case re_match p (c # cs) of
          None \<Rightarrow> re_split_from p cs 0 (c # acc)
        | Some m \<Rightarrow>
            if m = [] then re_split_from p cs 0 (c # acc)
            else rev acc # re_split_from p cs (length m - 1) [])"

definition re_split :: "rx \<Rightarrow> string \<Rightarrow> string list" where
  "re_split p s = re_split_from p s 0 []"

fun re_split_groups_from :: "rx \<Rightarrow> string \<Rightarrow> nat \<Rightarrow> string \<Rightarrow> string list" where
  "re_split_groups_from p [] skip acc = [rev acc]"
| "re_split_groups_from p (c # cs) skip acc =
     (if 0 < skip then re_split_groups_from p cs (skip - 1) acc
      else case re_match p (c # cs) of
          None \<Rightarrow> re_split_groups_from p cs 0 (c # acc)
        | Some m \<Rightarrow>
            if m = [] then re_split_groups_from p cs 0 (c # acc)
            else rev acc # m # re_split_groups_from p cs (length m - 1) [])"

definition re_split_groups :: "rx \<Rightarrow> string \<Rightarrow> string list" where
  "re_split_groups p s = re_split_groups_from p s 0 []"

fun re_findall_from :: "rx \<Rightarrow> string \<Rightarrow> nat \<Rightarrow> string list" where
  "re_findall_from p [] skip = []"
| "re_findall_from p (c # cs) skip =
     (if 0 < skip then re_findall_from p cs (skip - 1)
      else case re_match p (c # cs) of
          None \<Rightarrow> re_findall_from p cs 0
        | Some m \<Rightarrow>
            if m = [] then re_findall_from p cs 0
            else m # re_findall_from p cs (length m - 1))"

definition re_findall :: "rx \<Rightarrow> string \<Rightarrow> string list" where
  "re_findall p s = re_findall_from p s 0"

text \<open>Methods of \<open>str\<close>.\<close>

definition isnumeric :: "string \<Rightarrow> bool" where
  "isnumeric s = (s \<noteq> [] \<and> list_all is_digit s)"

definition strip :: "string \<Rightarrow> string" where
  "strip s = rev (dropWhile is_space (rev (dropWhile is_space s)))"

definition startswith :: "string \<Rightarrow> string \<Rightarrow> bool" where
  "startswith s p = (take (length p) s = p)"

definition endswith :: "string \<Rightarrow> string \<Rightarrow> bool" where
  "endswith s p = (drop (length s - length p) s = p \<and> length p \<le> length s)"

text \<open>\<open>s.split(c)\<close> for a separator of one character, and \<open>c.join(xs)\<close>.\<close>

fun split_char_from :: "char \<Rightarrow> string \<Rightarrow> string \<Rightarrow> string list" where
  "split_char_from d [] acc = [rev acc]"
| "split_char_from d (c # cs) acc =
     (if c = d then rev acc # split_char_from d cs [] else split_char_from d cs (c # acc))"

definition split_char :: "char \<Rightarrow> string \<Rightarrow> string list" where
  "split_char d s = split_char_from d s []"

fun join :: "string \<Rightarrow> string list \<Rightarrow> string" where
  "join sep [] = []"
| "join sep [x] = x"
| "join sep (x # xs) = x @ sep @ join sep xs"

text \<open>\<open>s.replace(old, new, 1)\<close>: the first occurrence only.\<close>

fun replace1 :: "string \<Rightarrow> string \<Rightarrow> string \<Rightarrow> string" where
  "replace1 old new [] = (if old = [] then new else [])"
| "replace1 old new (c # cs) =
     (if take (length old) (c # cs) = old then new @ drop (length old) (c # cs)
      else c # replace1 old new cs)"

text \<open>
  Indexing a list the way Python does: a negative index counts from the end, and an
  index out of range raises \<open>IndexError\<close> (here \<open>None\<close>).
\<close>

definition py_idx :: "'a list \<Rightarrow> int \<Rightarrow> nat option" where
  "py_idx xs i =
     (if 0 \<le> i \<and> i < int (length xs) then Some (nat i)
      else if i < 0 \<and> - int (length xs) \<le> i then Some (nat (int (length xs) + i))
      else None)"

text \<open>\<open>range(a, b, -1)\<close>: from \<open>a\<close> down to \<open>b + 1\<close>.\<close>

definition range_down :: "int \<Rightarrow> int \<Rightarrow> int list" where
  "range_down a b = map (\<lambda>k. a - int k) [0..<nat (a - b)]"

text \<open>A \<open>dict\<close> keeps its keys in insertion order; assigning to a key it holds keeps
  the key's position.\<close>

fun dict_set :: "('k \<times> 'v) list \<Rightarrow> 'k \<Rightarrow> 'v \<Rightarrow> ('k \<times> 'v) list" where
  "dict_set [] k v = [(k, v)]"
| "dict_set ((k', v') # d) k v = (if k' = k then (k, v) # d else (k', v') # dict_set d k v)"


section \<open>Values and commands (runtime.py, command.py)\<close>

datatype CallTypeEnum = CBV | CBR | CBVR | CBNEED | CBNAME

text \<open>
  A \<open>calltype\<close> argument holds whatever the caller passes. The runtime only compares
  it with members of \<open>CallTypeEnum\<close>, and \<open>main\<close> passes a \<open>bool\<close> (see
  \<open>main\<close> below), which equals no member.
\<close>

datatype pyconv = Member CallTypeEnum | Boolean bool

text \<open>
  \<open>translate_vars\<close> turns an expression of the language into Python source for
  \<open>eval\<close>, joining the pieces of \<open>expr_list\<close>. The source text is kept as that list:
  \<open>Op e\<close> and \<open>Num e\<close> stand for the piece \<open>e\<close> itself, \<open>Quoted e\<close> for
  \<open>stack.func_ret(e)\<close> and \<open>Name e\<close> for \<open>stack.get_value('e')\<close>.
  The other strings the runtime evaluates are results of \<open>str(v)\<close>:
  \<open>"None"\<close>, a decimal number, and \<open>"Function()"\<close> (the \<open>repr\<close> the
  \<open>dataclass\<close> decorator gives a class without fields).
\<close>

datatype tok = Op string | Num string | Quoted string | Name string

datatype pystr = Src "tok list" | StrNone | StrInt int | StrFun

datatype command =
    DECLARE_VAR string
  | DECLARE_FUNC string "command list \<times> (int \<times> int \<times> int) list" "string list"
  | ASSIGN_VAR string string
  | FUNC_CALL string "string list"
  | RETURN string
  | VALUE_RESULT string "string list"
  | STORE_FUNC_RET string
  | CLEAR_FUNC_RET
  | SCOPE_NEW
  | SCOPE_DEL bool
  | CONDITIONAL string string string
      "command list \<times> (int \<times> int \<times> int) list" "command list \<times> (int \<times> int \<times> int) list"

type_synonym line_data = "(int \<times> int \<times> int) list"

datatype Function =
  Function (fn_name: string) (fn_commands: "command list \<times> line_data")
    (fn_params: "string list") (fn_rindex: int)

datatype pyval = VNone | VInt int | VStr pystr | VFun Function

fun py_str :: "pyval \<Rightarrow> pystr" where
  "py_str VNone = StrNone"
| "py_str (VInt n) = StrInt n"
| "py_str (VStr s) = s"
| "py_str (VFun f) = StrFun"

record ActivatationRecord =
  ar_record :: "(string \<times> pyval) list"
  ar_calltype :: pyconv

text \<open>
  An entry of \<open>func_stack\<close> is \<open>(rindex, sindex, fname)\<close>. \<open>value_result\<close> pushes
  the whole entry it popped as the new \<open>rindex\<close>, so the first component is an integer
  or a tuple.
\<close>

datatype rix = RInt int | RTup rix int string

record RuntimeStack =
  records :: "ActivatationRecord list"
  typing :: bool
  calltype :: pyconv
  ret :: pyval
  func_stack :: "(rix \<times> int \<times> string) list"
  func_returns :: "(string \<times> pyval) list"

text \<open>\<open>RuntimeStack.__init__\<close>: no record, no call, no return value.\<close>

definition RuntimeStack_init :: "bool \<Rightarrow> pyconv \<Rightarrow> RuntimeStack" where
  "RuntimeStack_init type ct =
     \<lparr>records = [], typing = type, calltype = ct, ret = VNone, func_stack = [], func_returns = []\<rparr>"

definition new_record :: "pyconv \<Rightarrow> ActivatationRecord" where
  "new_record ct = \<lparr>ar_record = [], ar_calltype = ct\<rparr>"

section \<open>Evaluating expressions (the builtin \<open>eval\<close>)\<close>

text \<open>
  The fragment of Python expressions embedded: integer literals, the two calls on
  \<open>stack\<close>, unary and binary \<open>+ - *\<close>, \<open>/\<close> and parentheses. \<open>parse_expr\<close>
  builds the syntax tree with Python's precedences by the shunting-yard method;
  \<open>None\<close> is a \<open>SyntaxError\<close> or source outside the fragment.
\<close>

datatype pyexpr = ENum int | EGet string | ERet string | ENeg pyexpr | EPos pyexpr
  | EBin char pyexpr pyexpr

fun int_of_digits :: "string \<Rightarrow> int" where
  "int_of_digits s = foldl (\<lambda>a c. 10 * a + (int (of_char c) - 48)) 0 s"

text \<open>A decimal literal with a leading zero is a syntax error, unless it is all zeros.\<close>

fun literal :: "string \<Rightarrow> int option" where
  "literal s =
     (if isnumeric s \<and> (hd s \<noteq> CHR ''0'' \<or> list_all (\<lambda>c. c = CHR ''0'') s)
      then Some (int_of_digits s) else None)"

text \<open>Operators on the stack: \<open>+ - * /\<close>, the left parenthesis, and \<open>n\<close>, \<open>p\<close> for
  unary minus and plus.\<close>

fun prec :: "char \<Rightarrow> nat" where
  "prec c = (if c = CHR ''+'' \<or> c = CHR ''-'' then 1
             else if c = CHR ''*'' \<or> c = CHR ''/'' then 2 else 3)"

fun apply_op :: "char \<Rightarrow> pyexpr list \<Rightarrow> pyexpr list option" where
  "apply_op c [] = None"
| "apply_op c [a] =
     (if c = CHR ''n'' then Some [ENeg a] else if c = CHR ''p'' then Some [EPos a] else None)"
| "apply_op c (b # a # out) =
     (if c = CHR ''n'' then Some (ENeg b # a # out)
      else if c = CHR ''p'' then Some (EPos b # a # out)
      else Some (EBin c a b # out))"

fun pop_ops :: "nat \<Rightarrow> char list \<Rightarrow> pyexpr list \<Rightarrow> (char list \<times> pyexpr list) option" where
  "pop_ops lim [] out = Some ([], out)"
| "pop_ops lim (c # ops) out =
     (if c \<noteq> CHR ''('' \<and> lim \<le> prec c
      then (case apply_op c out of None \<Rightarrow> None | Some out' \<Rightarrow> pop_ops lim ops out')
      else Some (c # ops, out))"

fun shunt :: "tok list \<Rightarrow> bool \<Rightarrow> char list \<Rightarrow> pyexpr list \<Rightarrow> pyexpr option" where
  "shunt [] operand ops out =
     (if operand then None
      else case pop_ops 0 ops out of Some ([], [e]) \<Rightarrow> Some e | _ \<Rightarrow> None)"
| "shunt (Num s # ts) operand ops out =
     (if operand then (case literal s of None \<Rightarrow> None | Some n \<Rightarrow> shunt ts False ops (ENum n # out))
      else None)"
| "shunt (Name s # ts) operand ops out =
     (if operand then shunt ts False ops (EGet s # out) else None)"
| "shunt (Quoted s # ts) operand ops out =
     (if operand then shunt ts False ops (ERet s # out) else None)"
| "shunt (Op s # ts) operand ops out =
     (case strip s of
        [c] \<Rightarrow>
          if c = CHR ''('' then (if operand then shunt ts True (c # ops) out else None)
          else if c = CHR '')'' then
            (if operand then None
             else case pop_ops 0 ops out of
                 Some (d # ops', out') \<Rightarrow> shunt ts False ops' out'
               | _ \<Rightarrow> None)
          else if operand then
            (if c = CHR ''-'' then shunt ts True (CHR ''n'' # ops) out
             else if c = CHR ''+'' then shunt ts True (CHR ''p'' # ops) out
             else None)
          else (case pop_ops (prec c) ops out of
                  None \<Rightarrow> None
                | Some (ops', out') \<Rightarrow> shunt ts True (c # ops') out')
      | _ \<Rightarrow> None)"

definition parse_expr :: "tok list \<Rightarrow> pyexpr option" where
  "parse_expr ts = shunt ts True [] []"

text \<open>Arithmetic on values. True division gives a float, which is not embedded.\<close>

fun py_binop :: "char \<Rightarrow> pyval \<Rightarrow> pyval \<Rightarrow> error + pyval" where
  "py_binop c (VInt a) (VInt b) =
     (if c = CHR ''+'' then Inr (VInt (a + b))
      else if c = CHR ''-'' then Inr (VInt (a - b))
      else if c = CHR ''*'' then Inr (VInt (a * b))
      else if c = CHR ''/'' then (if b = 0 then Inl ZeroDivisionError else Inl NotModelled)
      else Inl NotModelled)"
| "py_binop c (VStr a) b = Inl NotModelled"
| "py_binop c a (VStr b) = Inl NotModelled"
| "py_binop c a b = Inl TypeError"

fun py_neg :: "pyval \<Rightarrow> error + pyval" where
  "py_neg (VInt a) = Inr (VInt (- a))"
| "py_neg (VStr a) = Inl NotModelled"
| "py_neg a = Inl TypeError"

fun py_pos :: "pyval \<Rightarrow> error + pyval" where
  "py_pos (VInt a) = Inr (VInt a)"
| "py_pos (VStr a) = Inl NotModelled"
| "py_pos a = Inl TypeError"

text \<open>
  The argument of \<open>stack.func_ret(...)\<close> is the quoted piece itself, a Python
  expression: one string literal, or (when the pattern of \<open>translate_vars\<close> has run
  from the first quote of the expression to the last) two literals joined by \<open>+\<close>,
  which Python concatenates.
\<close>

definition dquote :: char where
  "dquote = CHR 0x22"

fun quoted_key :: "string \<Rightarrow> string option" where
  "quoted_key e =
     (case split_char dquote e of
        [a, k, b] \<Rightarrow> if a = [] \<and> b = [] then Some k else None
      | [a, k, m, k', b] \<Rightarrow>
          if a = [] \<and> b = [] \<and> strip m = ''+'' then Some (k @ k') else None
      | _ \<Rightarrow> None)"

text \<open>
  Evaluation runs left to right and threads a state \<open>'s\<close>, since reading a variable
  can change a record. \<open>get\<close> is \<open>stack.get_value\<close> and \<open>fret\<close> is
  \<open>stack.func_ret\<close>, as far as the name \<open>stack\<close> is bound where \<open>eval\<close> is called.
\<close>

fun eval_ast :: "(string \<Rightarrow> 's \<Rightarrow> error + (pyval \<times> 's)) \<Rightarrow> (string \<Rightarrow> 's \<Rightarrow> error + pyval)
    \<Rightarrow> pyexpr \<Rightarrow> 's \<Rightarrow> error + (pyval \<times> 's)" where
  "eval_ast get fret (ENum n) st = Inr (VInt n, st)"
| "eval_ast get fret (EGet x) st = get x st"
| "eval_ast get fret (ERet e) st =
     (case fret e st of Inl err \<Rightarrow> Inl err | Inr v \<Rightarrow> Inr (v, st))"
| "eval_ast get fret (ENeg a) st =
     (case eval_ast get fret a st of
        Inl err \<Rightarrow> Inl err
      | Inr (v, st1) \<Rightarrow> (case py_neg v of Inl err \<Rightarrow> Inl err | Inr w \<Rightarrow> Inr (w, st1)))"
| "eval_ast get fret (EPos a) st =
     (case eval_ast get fret a st of
        Inl err \<Rightarrow> Inl err
      | Inr (v, st1) \<Rightarrow> (case py_pos v of Inl err \<Rightarrow> Inl err | Inr w \<Rightarrow> Inr (w, st1)))"
| "eval_ast get fret (EBin c a b) st =
     (case eval_ast get fret a st of
        Inl err \<Rightarrow> Inl err
      | Inr (v, st1) \<Rightarrow>
          (case eval_ast get fret b st1 of
             Inl err \<Rightarrow> Inl err
           | Inr (w, st2) \<Rightarrow>
               (case py_binop c v w of Inl err \<Rightarrow> Inl err | Inr r \<Rightarrow> Inr (r, st2))))"

text \<open>
  \<open>eval(s)\<close> for a string \<open>s\<close>. \<open>eval("Function()")\<close> calls the constructor without
  its four arguments: a \<open>TypeError\<close>.
\<close>

fun eval_str :: "(string \<Rightarrow> 's \<Rightarrow> error + (pyval \<times> 's)) \<Rightarrow> (string \<Rightarrow> 's \<Rightarrow> error + pyval)
    \<Rightarrow> pystr \<Rightarrow> 's \<Rightarrow> error + (pyval \<times> 's)" where
  "eval_str get fret (Src ts) st =
     (case parse_expr ts of None \<Rightarrow> Inl NotModelled | Some e \<Rightarrow> eval_ast get fret e st)"
| "eval_str get fret StrNone st = Inr (VNone, st)"
| "eval_str get fret (StrInt n) st = Inr (VInt n, st)"
| "eval_str get fret StrFun st = Inl TypeError"

text \<open>
  Inside runtime.py, \<open>eval\<close> is called in the nested functions \<open>obtain\<close> and
  \<open>assign\<close> and in \<open>RuntimeStack.set_value\<close>. None of the three has a variable
  \<open>stack\<close>: the parameter \<open>stack\<close> of the enclosing method is not referenced in the
  nested function, so it is no free variable of it, and \<open>eval\<close> sees the locals of its
  caller and the module's globals only. Looking \<open>stack\<close> up raises \<open>NameError\<close>.
\<close>

definition eval_nostack :: "pystr \<Rightarrow> error + pyval" where
  "eval_nostack s =
     (case eval_str (\<lambda>x u. Inl NameError) (\<lambda>e u. Inl NameError) s () of
        Inl err \<Rightarrow> Inl err
      | Inr (v, u) \<Rightarrow> Inr v)"


section \<open>Activation records (runtime.py, class \<open>ActivatationRecord\<close>)\<close>

text \<open>
  \<open>obtain\<close>, the function nested in \<open>ActivatationRecord.get_value\<close>: a value that is
  a string is evaluated, and under CBNEED the result replaces the string.
\<close>

definition ar_obtain :: "ActivatationRecord \<Rightarrow> string \<Rightarrow> error + (pyval \<times> ActivatationRecord)" where
  "ar_obtain self name =
     (case map_of (ar_record self) name of
        None \<Rightarrow> Inl KeyError
      | Some val0 \<Rightarrow>
          (case (case val0 of VStr s \<Rightarrow> eval_nostack s | _ \<Rightarrow> Inr val0) of
             Inl err \<Rightarrow> Inl err
           | Inr val \<Rightarrow>
               Inr (val,
                    if ar_calltype self = Member CBNEED \<and> val \<noteq> val0
                    then self\<lparr>ar_record := dict_set (ar_record self) name val\<rparr>
                    else self)))"

text \<open>
  The loop over the keys when \<open>fname\<close> is given: it stops at the key \<open>fname\<close>, and
  finds \<open>name\<close> only before it.
\<close>

fun found_before :: "string list \<Rightarrow> string \<Rightarrow> string \<Rightarrow> bool" where
  "found_before [] name fname = False"
| "found_before (k # ks) name fname =
     (if k = fname then False else if k = name then True else found_before ks name fname)"

text \<open>\<open>if fname:\<close> holds for a string that is not empty.\<close>

fun ar_get_value :: "ActivatationRecord \<Rightarrow> string \<Rightarrow> string option
    \<Rightarrow> error + (pyval \<times> ActivatationRecord)" where
  "ar_get_value self name fname =
     (if fname \<noteq> None \<and> fname \<noteq> Some []
      then (if found_before (map fst (ar_record self)) name (the fname)
            then ar_obtain self name else Inr (VNone, self))
      else if name \<in> set (map fst (ar_record self)) then ar_obtain self name
      else Inr (VNone, self))"

text \<open>\<open>assign\<close>, the function nested in \<open>ActivatationRecord.set_value\<close>.\<close>

definition assign :: "ActivatationRecord \<Rightarrow> string \<Rightarrow> pyval \<Rightarrow> error + ActivatationRecord" where
  "assign self name val =
     (case (case val of VStr s \<Rightarrow> eval_nostack s | _ \<Rightarrow> Inr val) of
        Inl err \<Rightarrow> Inl err
      | Inr v \<Rightarrow> Inr (self\<lparr>ar_record := dict_set (ar_record self) name v\<rparr>))"

fun ar_set_value :: "ActivatationRecord \<Rightarrow> string \<Rightarrow> pyval \<Rightarrow> string option
    \<Rightarrow> error + (bool \<times> ActivatationRecord)" where
  "ar_set_value self name val fname =
     (if fname \<noteq> None \<and> fname \<noteq> Some []
      then (if found_before (map fst (ar_record self)) name (the fname)
            then (case assign self name val of Inl err \<Rightarrow> Inl err | Inr r \<Rightarrow> Inr (True, r))
            else Inr (False, self))
      else if name \<in> set (map fst (ar_record self))
      then (case assign self name val of Inl err \<Rightarrow> Inl err | Inr r \<Rightarrow> Inr (True, r))
      else Inr (False, self))"

section \<open>The runtime stack (runtime.py, class \<open>RuntimeStack\<close>)\<close>

definition store_func_returns :: "RuntimeStack \<Rightarrow> string \<Rightarrow> RuntimeStack" where
  "store_func_returns self uuid =
     self\<lparr>func_returns := dict_set (func_returns self) uuid (ret self), ret := VNone\<rparr>"

text \<open>\<open>func_ret(uuid)\<close> with the argument still to evaluate; a key not stored raises
  \<open>KeyError\<close>.\<close>

definition func_ret :: "string \<Rightarrow> RuntimeStack \<Rightarrow> error + pyval" where
  "func_ret e self =
     (case quoted_key e of
        None \<Rightarrow> Inl NotModelled
      | Some uuid \<Rightarrow>
          (case map_of (func_returns self) uuid of None \<Rightarrow> Inl KeyError | Some v \<Rightarrow> Inr v))"

definition push_record :: "RuntimeStack \<Rightarrow> ActivatationRecord \<Rightarrow> RuntimeStack" where
  "push_record self r = self\<lparr>records := records self @ [r]\<rparr>"

definition pop_record :: "RuntimeStack \<Rightarrow> error + RuntimeStack" where
  "pop_record self =
     (if records self = [] then Inl IndexError
      else Inr (self\<lparr>records := butlast (records self)\<rparr>))"

definition push_func :: "RuntimeStack \<Rightarrow> rix \<Rightarrow> string \<Rightarrow> RuntimeStack" where
  "push_func self rindex fname =
     self\<lparr>func_stack := func_stack self @ [(rindex, int (length (records self)) - 1, fname)]\<rparr>"

definition pop_func :: "RuntimeStack \<Rightarrow> error + ((rix \<times> int \<times> string) \<times> RuntimeStack)" where
  "pop_func self =
     (if func_stack self = [] then Inl IndexError
      else Inr (last (func_stack self), self\<lparr>func_stack := butlast (func_stack self)\<rparr>))"

text \<open>
  The loops of \<open>get_value\<close> over a range of indices \<open>is\<close>: the first value that is
  not \<open>None\<close> is returned; \<open>VNone\<close> says that the loop ran to its end.
\<close>

fun get_loop :: "RuntimeStack \<Rightarrow> string \<Rightarrow> string option \<Rightarrow> int list
    \<Rightarrow> error + (pyval \<times> RuntimeStack)" where
  "get_loop self name fname [] = Inr (VNone, self)"
| "get_loop self name fname (i # is) =
     (case py_idx (records self) i of
        None \<Rightarrow> Inl IndexError
      | Some k \<Rightarrow>
          (case ar_get_value (records self ! k) name fname of
             Inl err \<Rightarrow> Inl err
           | Inr (v, r) \<Rightarrow>
               if v \<noteq> VNone then Inr (v, self\<lparr>records := (records self)[k := r]\<rparr>)
               else get_loop (self\<lparr>records := (records self)[k := r]\<rparr>) name fname is))"

text \<open>
  \<open>RuntimeStack.get_value\<close>. The first branch is the one the source calls statically
  typed: a call is active and \<open>typing\<close> is false.
\<close>

definition get_value :: "RuntimeStack \<Rightarrow> string \<Rightarrow> error + (pyval \<times> RuntimeStack)" where
  "get_value self name =
     (if func_stack self \<noteq> [] \<and> \<not> typing self
      then (case last (func_stack self) of
              (rindex, sindex, fname) \<Rightarrow>
                (case get_loop self name None
                        (range_down (int (length (records self)) - 1) (sindex - 1)) of
                   Inl err \<Rightarrow> Inl err
                 | Inr (v, st) \<Rightarrow>
                     if v \<noteq> VNone then Inr (v, st)
                     else (case rindex of
                             RTup a b c \<Rightarrow> Inl TypeError
                           | RInt r \<Rightarrow> get_loop st name (Some fname) (range_down r (- 1)))))
      else get_loop self name None (range_down (int (length (records self)) - 1) (- 1)))"

text \<open>
  The loops of \<open>set_value\<close>. In the static branch the argument is \<open>eval(value)\<close>,
  computed anew before each record is tried (\<open>early = True\<close>); \<open>eval\<close> of an object
  that is no string raises \<open>TypeError\<close>.
\<close>

definition eval_arg :: "pyval \<Rightarrow> error + pyval" where
  "eval_arg val = (case val of VStr s \<Rightarrow> eval_nostack s | _ \<Rightarrow> Inl TypeError)"

fun set_loop :: "RuntimeStack \<Rightarrow> string \<Rightarrow> pyval \<Rightarrow> bool \<Rightarrow> string option \<Rightarrow> int list
    \<Rightarrow> error + (bool \<times> RuntimeStack)" where
  "set_loop self name val early fname [] = Inr (False, self)"
| "set_loop self name val early fname (i # is) =
     (case py_idx (records self) i of
        None \<Rightarrow> Inl IndexError
      | Some k \<Rightarrow>
          (case (if early then eval_arg val else Inr val) of
             Inl err \<Rightarrow> Inl err
           | Inr v \<Rightarrow>
               (case ar_set_value (records self ! k) name v fname of
                  Inl err \<Rightarrow> Inl err
                | Inr (ok, r) \<Rightarrow>
                    if ok then Inr (True, self\<lparr>records := (records self)[k := r]\<rparr>)
                    else set_loop self name val early fname is)))"

definition set_value :: "RuntimeStack \<Rightarrow> string \<Rightarrow> pyval \<Rightarrow> error + (bool \<times> RuntimeStack)" where
  "set_value self name val =
     (if func_stack self \<noteq> [] \<and> \<not> typing self
      then (case last (func_stack self) of
              (rindex, sindex, fname) \<Rightarrow>
                (case set_loop self name val True None
                        (range_down (int (length (records self)) - 1) (sindex - 1)) of
                   Inl err \<Rightarrow> Inl err
                 | Inr (ok, st) \<Rightarrow>
                     if ok then Inr (True, st)
                     else (case rindex of
                             RTup a b c \<Rightarrow> Inl TypeError
                           | RInt r \<Rightarrow> set_loop st name val True (Some fname) (range_down r (- 1)))))
      else set_loop self name val False None (range_down (int (length (records self)) - 1) (- 1)))"

text \<open>\<open>declare_value\<close>: \<open>self.records[-1].record[name] = None\<close>.\<close>

definition declare_value :: "RuntimeStack \<Rightarrow> string \<Rightarrow> error + RuntimeStack" where
  "declare_value self name =
     (if records self = [] then Inl IndexError
      else Inr (self\<lparr>records := butlast (records self) @
                  [(last (records self))\<lparr>ar_record := dict_set (ar_record (last (records self))) name VNone\<rparr>]\<rparr>))"


section \<open>Executing commands (command.py)\<close>

text \<open>
  The pattern of \<open>translate_vars\<close>:
  \<open>(\".+\")|(\()|(\))|(\s?\+\s?)|(\s?-\s?)|(\s?\*\s?)|(\s?/\s?)\<close>.
\<close>

definition tv_rx :: rx where
  "tv_rx = alts [seqs [lit dquote, rx_plus (Atom AnyC), lit dquote],
                 lit CHR ''('', lit CHR '')'',
                 seqs [Opt (Atom SpaceC), lit CHR ''+'', Opt (Atom SpaceC)],
                 seqs [Opt (Atom SpaceC), lit CHR ''-'', Opt (Atom SpaceC)],
                 seqs [Opt (Atom SpaceC), lit CHR ''*'', Opt (Atom SpaceC)],
                 seqs [Opt (Atom SpaceC), lit CHR ''/'', Opt (Atom SpaceC)]]"

definition translate_elem :: "string \<Rightarrow> tok" where
  "translate_elem elem =
     (if strip elem \<in> set [''+'', ''-'', ''*'', ''/'', ''('', '')''] then Op elem
      else if isnumeric elem then Num elem
      else if hd elem = dquote then Quoted elem
      else Name elem)"

definition translate_vars :: "string \<Rightarrow> tok list" where
  "translate_vars expr = map translate_elem (filter (\<lambda>e. e \<noteq> []) (re_split_groups tv_rx expr))"

text \<open>\<open>eval\<close> called in command.py, where \<open>stack\<close> is a parameter of the caller.\<close>

definition eval_stack :: "tok list \<Rightarrow> RuntimeStack \<Rightarrow> error + (pyval \<times> RuntimeStack)" where
  "eval_stack ts st = eval_str (\<lambda>x s. get_value s x) func_ret (Src ts) st"

definition new_scope :: "RuntimeStack \<Rightarrow> pyconv \<Rightarrow> RuntimeStack" where
  "new_scope stack ct = push_record stack (new_record ct)"

definition del_scope :: "RuntimeStack \<Rightarrow> bool \<Rightarrow> error + RuntimeStack" where
  "del_scope stack func =
     (if func then (case pop_func stack of Inl err \<Rightarrow> Inl err | Inr (e, st) \<Rightarrow> pop_record st)
      else pop_record stack)"

definition declare_variable :: "RuntimeStack \<Rightarrow> string \<Rightarrow> error + RuntimeStack" where
  "declare_variable stack name = declare_value stack name"

text \<open>\<open>assign_variable\<close>: \<open>stack.set_value(name, str(eval(expr)))\<close>; the result of
  \<open>set_value\<close> is dropped.\<close>

definition assign_variable :: "RuntimeStack \<Rightarrow> string \<Rightarrow> string \<Rightarrow> error + RuntimeStack" where
  "assign_variable stack name val =
     (case eval_stack (translate_vars val) stack of
        Inl err \<Rightarrow> Inl err
      | Inr (v, st) \<Rightarrow>
          (case set_value st name (VStr (py_str v)) of
             Inl err \<Rightarrow> Inl err
           | Inr (ok, st') \<Rightarrow> Inr st'))"

definition function_return :: "RuntimeStack \<Rightarrow> string \<Rightarrow> error + RuntimeStack" where
  "function_return stack val =
     (case eval_stack (translate_vars val) stack of
        Inl err \<Rightarrow> Inl err
      | Inr (v, st) \<Rightarrow> Inr (st\<lparr>ret := v\<rparr>))"

text \<open>
  The loop of \<open>value_result\<close>. For an argument that is not numeric it evaluates
  \<open>func_record.get_value(param)\<close>: a call of \<open>ActivatationRecord.get_value(self, stack,
  name, fname=None)\<close> with one argument, which raises \<open>TypeError\<close> (no value for
  \<open>name\<close>) before \<open>stack.set_value\<close> is called.
\<close>

fun value_result_loop :: "string list \<Rightarrow> string list \<Rightarrow> error + unit" where
  "value_result_loop [] args = Inr ()"
| "value_result_loop (param # params) [] = Inl IndexError"
| "value_result_loop (param # params) (arg # args) =
     (if \<not> isnumeric arg then Inl TypeError else value_result_loop params args)"

definition value_result :: "RuntimeStack \<Rightarrow> string \<Rightarrow> string list \<Rightarrow> error + RuntimeStack" where
  "value_result stack name args =
     (case get_value stack name of
        Inl err \<Rightarrow> Inl err
      | Inr (func, st1) \<Rightarrow>
          (case pop_func st1 of
             Inl err \<Rightarrow> Inl err
           | Inr ((r, s, f), st2) \<Rightarrow>
               if records st2 = [] then Inl IndexError
               else (case func of
                       VFun fn \<Rightarrow>
                         (case value_result_loop (fn_params fn) args of
                            Inl err \<Rightarrow> Inl err
                          | Inr u \<Rightarrow> Inr (push_func st2 (RTup r s f) (fn_name fn)))
                     | _ \<Rightarrow> Inl AttributeError)))"

definition declare_function :: "RuntimeStack \<Rightarrow> string \<Rightarrow> command list \<times> line_data \<Rightarrow> string list
    \<Rightarrow> error + RuntimeStack" where
  "declare_function stack name cmds params =
     (case declare_value stack name of
        Inl err \<Rightarrow> Inl err
      | Inr st \<Rightarrow>
          (case set_value st name (VFun (Function name cmds params (int (length (records st)) - 1))) of
             Inl err \<Rightarrow> Inl err
           | Inr (ok, st') \<Rightarrow> Inr st'))"

fun apply_func_params :: "RuntimeStack \<Rightarrow> ActivatationRecord \<Rightarrow> string list \<Rightarrow> string list \<Rightarrow> pyconv
    \<Rightarrow> error + (ActivatationRecord \<times> RuntimeStack)" where
  "apply_func_params stack record [] arguments ct = Inr (record, stack)"
| "apply_func_params stack record (p # params) [] ct = Inl IndexError"
| "apply_func_params stack record (p # params) (a # arguments) ct =
     (if ct = Member CBNAME \<or> ct = Member CBNEED \<or> ct = Member CBR
      then apply_func_params stack
             (record\<lparr>ar_record := dict_set (ar_record record) p (VStr (Src (translate_vars a)))\<rparr>)
             params arguments ct
      else (case eval_stack (translate_vars a) stack of
              Inl err \<Rightarrow> Inl err
            | Inr (v, st) \<Rightarrow>
                apply_func_params st (record\<lparr>ar_record := dict_set (ar_record record) p v\<rparr>)
                  params arguments ct))"

text \<open>\<open>call_function\<close> up to the point where it runs the body: the stack with the
  new record and the new entry of \<open>func_stack\<close>, and the body.\<close>

definition call_function_enter :: "RuntimeStack \<Rightarrow> string \<Rightarrow> string list \<Rightarrow> pyconv
    \<Rightarrow> error + (RuntimeStack \<times> (command list \<times> line_data))" where
  "call_function_enter stack fname args ct =
     (case get_value stack fname of
        Inl err \<Rightarrow> Inl err
      | Inr (func, st1) \<Rightarrow>
          (case func of
             VFun fn \<Rightarrow>
               (case apply_func_params st1 (new_record ct) (fn_params fn) args ct of
                  Inl err \<Rightarrow> Inl err
                | Inr (rfunc, st2) \<Rightarrow>
                    Inr (push_func (push_record st2 rfunc) (RInt (fn_rindex fn)) fname, fn_commands fn))
           | _ \<Rightarrow> Inl AttributeError))"

definition cond_lookup :: "(string \<times> string) list" where
  "cond_lookup =
     [(''='', ''==''), (''=='', ''==''),
      ([CHR 0x5C, CHR ''=''], ''!=''), (''/='', ''!=''), (''!='', ''!=''),
      (''>'', ''>''), (''<'', ''<''),
      (''=<'', ''<=''), (''<='', ''<=''),
      (''>='', ''>=''), (''=>'', ''>='')]"

text \<open>
  Comparing two values. \<open>Function\<close> is a \<open>dataclass\<close> without fields, so any two of
  its objects are equal; an order between values that are not both integers raises
  \<open>TypeError\<close>.
\<close>

fun py_eq :: "pyval \<Rightarrow> pyval \<Rightarrow> error + bool" where
  "py_eq (VInt a) (VInt b) = Inr (a = b)"
| "py_eq VNone VNone = Inr True"
| "py_eq (VFun f) (VFun g) = Inr True"
| "py_eq (VStr a) b = Inl NotModelled"
| "py_eq a (VStr b) = Inl NotModelled"
| "py_eq a b = Inr False"

fun py_compare :: "string \<Rightarrow> pyval \<Rightarrow> pyval \<Rightarrow> error + bool" where
  "py_compare c a b =
     (if c = ''=='' then py_eq a b
      else if c = ''!='' then (case py_eq a b of Inl err \<Rightarrow> Inl err | Inr r \<Rightarrow> Inr (\<not> r))
      else (case (a, b) of
              (VInt x, VInt y) \<Rightarrow>
                if c = ''>'' then Inr (x > y) else if c = ''<'' then Inr (x < y)
                else if c = ''<='' then Inr (x \<le> y) else if c = ''>='' then Inr (x \<ge> y)
                else Inl NotModelled
            | (VStr x, y) \<Rightarrow> Inl NotModelled
            | (x, VStr y) \<Rightarrow> Inl NotModelled
            | _ \<Rightarrow> Inl TypeError))"

text \<open>
  The condition of \<open>conditional\<close>: \<open>eval(translate_vars(left) + cond_lookup[cond] +
  translate_vars(right))\<close>, a comparison of two arithmetic expressions.
\<close>

definition eval_condition :: "RuntimeStack \<Rightarrow> string \<Rightarrow> string \<Rightarrow> string
    \<Rightarrow> error + (bool \<times> RuntimeStack)" where
  "eval_condition stack left cond right =
     (case map_of cond_lookup cond of
        None \<Rightarrow> Inl KeyError
      | Some c \<Rightarrow>
          (case (parse_expr (translate_vars left), parse_expr (translate_vars right)) of
             (Some l, Some r) \<Rightarrow>
               (case eval_ast (\<lambda>x s. get_value s x) func_ret l stack of
                  Inl err \<Rightarrow> Inl err
                | Inr (a, st1) \<Rightarrow>
                    (case eval_ast (\<lambda>x s. get_value s x) func_ret r st1 of
                       Inl err \<Rightarrow> Inl err
                     | Inr (b, st2) \<Rightarrow>
                         (case py_compare c a b of
                            Inl err \<Rightarrow> Inl err
                          | Inr t \<Rightarrow> Inr (t, st2))))
           | _ \<Rightarrow> Inl NotModelled))"

text \<open>
  \<open>Command.apply\<close> and \<open>execute_program\<close>. A function of the language can call
  itself, so the interpreter need not return: \<open>fuel\<close> bounds the depth to which
  \<open>execute_program\<close> is entered (by \<open>call_function\<close> and \<open>conditional\<close>), and
  \<open>None\<close> says that the bound was reached. \<open>run_count\<close> is the inner loop
  \<open>for _ in range(ccount)\<close>, \<open>run_lines\<close> the loop over \<open>line_data\<close>; both carry
  the index \<open>i\<close> into the commands. The \<open>print\<close> calls only read the stack.
\<close>

fun apply_cmd :: "nat \<Rightarrow> command \<Rightarrow> RuntimeStack \<Rightarrow> pyconv \<Rightarrow> (error + RuntimeStack) option"
  and run_count :: "nat \<Rightarrow> command list \<Rightarrow> nat \<Rightarrow> nat \<Rightarrow> RuntimeStack \<Rightarrow> pyconv
    \<Rightarrow> (error + (nat \<times> RuntimeStack)) option"
  and run_lines :: "nat \<Rightarrow> command list \<Rightarrow> line_data \<Rightarrow> nat \<Rightarrow> RuntimeStack \<Rightarrow> pyconv
    \<Rightarrow> (error + RuntimeStack) option" where
  "apply_cmd fuel SCOPE_NEW stack ct = Some (Inr (new_scope stack ct))"
| "apply_cmd fuel (SCOPE_DEL func) stack ct = Some (del_scope stack func)"
| "apply_cmd fuel (DECLARE_VAR name) stack ct = Some (declare_variable stack name)"
| "apply_cmd fuel (ASSIGN_VAR name val) stack ct = Some (assign_variable stack name val)"
| "apply_cmd fuel (FUNC_CALL name args) stack ct =
     (case fuel of
        0 \<Rightarrow> None
      | Suc n \<Rightarrow>
          (case call_function_enter stack name args ct of
             Inl err \<Rightarrow> Some (Inl err)
           | Inr (st, body) \<Rightarrow> run_lines n (fst body) (snd body) 0 st ct))"
| "apply_cmd fuel (STORE_FUNC_RET uuid) stack ct = Some (Inr (store_func_returns stack uuid))"
| "apply_cmd fuel (RETURN val) stack ct = Some (function_return stack val)"
| "apply_cmd fuel (VALUE_RESULT name args) stack ct =
     (if ct = Member CBVR then Some (value_result stack name args) else Some (Inr stack))"
| "apply_cmd fuel (DECLARE_FUNC name cmds params) stack ct =
     Some (declare_function stack name cmds params)"
| "apply_cmd fuel (CONDITIONAL left cond right ifcommands ecommands) stack ct =
     (case fuel of
        0 \<Rightarrow> None
      | Suc n \<Rightarrow>
          (case eval_condition stack left cond right of
             Inl err \<Rightarrow> Some (Inl err)
           | Inr (boolean, st) \<Rightarrow>
               if boolean
               then run_lines n (fst ifcommands) (snd ifcommands) 0 (push_record st (new_record ct)) ct
               else run_lines n (fst ecommands) (snd ecommands) 0 (push_record st (new_record ct)) ct))"
| "apply_cmd fuel CLEAR_FUNC_RET stack ct = Some (Inr stack)"
| "run_count fuel cmds 0 i stack ct = Some (Inr (i, stack))"
| "run_count fuel cmds (Suc k) i stack ct =
     (if i < length cmds
      then (case apply_cmd fuel (cmds ! i) stack ct of
              None \<Rightarrow> None
            | Some (Inl err) \<Rightarrow> Some (Inl err)
            | Some (Inr st) \<Rightarrow> run_count fuel cmds k (Suc i) st ct)
      else Some (Inl IndexError))"
| "run_lines fuel cmds [] i stack ct = Some (Inr stack)"
| "run_lines fuel cmds ((cline, ccount, lineno) # ld) i stack ct =
     (case run_count fuel cmds (nat ccount) i stack ct of
        None \<Rightarrow> None
      | Some (Inl err) \<Rightarrow> Some (Inl err)
      | Some (Inr (j, st)) \<Rightarrow> run_lines fuel cmds ld j st ct)"

definition execute_program :: "nat \<Rightarrow> RuntimeStack \<Rightarrow> pyconv \<Rightarrow> command list \<Rightarrow> line_data
    \<Rightarrow> (error + RuntimeStack) option" where
  "execute_program fuel stack ct cmds ld = run_lines fuel cmds ld 0 stack ct"


section \<open>The parser (parse.py)\<close>

definition nameP :: rx where "nameP = rx_plus (Atom NameC)"
definition wsP :: rx where "wsP = rx_plus (Atom SpaceC)"
definition wsS :: rx where "wsS = Star (Atom SpaceC)"
definition exprP :: rx where "exprP = rx_plus (Atom ExprC)"

text \<open>\<open>r_params\<close> and \<open>r_cond\<close> (parse.py, lines 11 and 13).\<close>

definition r_params :: rx where
  "r_params =
     Opt (Alt (seqs [nameP, wsP, nameP,
                     rx_plus (seqs [wsS, lit CHR '','', wsS, nameP, wsP, nameP])])
              (seqs [nameP, wsP, nameP]))"

definition r_cond :: rx where
  "r_cond = alts [lit CHR ''='', lit CHR ''>'', lit CHR ''<'', lits ''>='', lits ''<='', lits ''!='']"

text \<open>The patterns of \<open>parse_input\<close>, in the order of its \<open>elif\<close> chain.\<close>

definition func_rx :: rx where
  "func_rx = seqs [nameP, wsP, nameP, lit CHR ''('', r_params, lit CHR '')'', wsS, lit CHR ''{'']"

definition return_rx :: rx where
  "return_rx = seqs [lits ''return'', wsP, exprP]"

definition if_rx :: rx where
  "if_rx = seqs [lits ''if'', wsP, exprP, wsS, r_cond, wsS, exprP, wsS, lit CHR ''{'']"

definition assign_op_rx :: rx where
  "assign_op_rx = seqs [wsS, Opt (lit CHR '':''), lit CHR ''='', wsS]"

definition decl_rx :: rx where
  "decl_rx = seqs [nameP, wsP, nameP]"

definition decl_assign_rx :: rx where
  "decl_assign_rx = seqs [nameP, wsP, nameP, assign_op_rx, exprP]"

definition assign_rx :: rx where
  "assign_rx = seqs [nameP, assign_op_rx, exprP]"

definition comma_rx :: rx where
  "comma_rx = seqs [wsS, lit CHR '','', wsS]"

definition call_rx :: rx where
  "call_rx = seqs [nameP, wsS, lit CHR ''('']"

subsection \<open>\<open>collect_func_calls\<close>\<close>

text \<open>
  The inner loop counting parentheses from position \<open>j\<close>: the number of characters
  it passes, or \<open>None\<close> when \<open>value[j]\<close> leaves the string (\<open>IndexError\<close>).
\<close>

fun find_close :: "string \<Rightarrow> nat \<Rightarrow> nat option" where
  "find_close [] parens = None"
| "find_close (c # cs) parens =
     (let p = (if c = CHR ''('' then parens + 1 else if c = CHR '')'' then parens - 1 else parens)
      in if 0 < p then map_option Suc (find_close cs p) else Some 1)"

text \<open>
  The outer loop, over the rest of \<open>value\<close> from position \<open>i\<close>; after a match the
  loop passes over the matched text (\<open>skip\<close>). \<open>uuid4()\<close> is modelled by a supply
  \<open>gen\<close> of strings and a counter: the \<open>n\<close>-th call returns \<open>gen n\<close>.
\<close>

type_synonym call_data = "string \<times> string \<times> nat \<times> nat"

fun scan_calls :: "(nat \<Rightarrow> string) \<Rightarrow> string \<Rightarrow> nat \<Rightarrow> nat \<Rightarrow> nat
    \<Rightarrow> error + (call_data list \<times> nat)" where
  "scan_calls gen [] i skip ctr = Inr ([], ctr)"
| "scan_calls gen (c # cs) i skip ctr =
     (if 0 < skip then scan_calls gen cs (i + 1) (skip - 1) ctr
      else case re_match call_rx (c # cs) of
          None \<Rightarrow> scan_calls gen cs (i + 1) 0 ctr
        | Some m \<Rightarrow>
            (case find_close (drop (length m) (c # cs)) 1 of
               None \<Rightarrow> Inl IndexError
             | Some k \<Rightarrow>
                 (case scan_calls gen cs (i + 1) (length m - 1) (ctr + 1) of
                    Inl err \<Rightarrow> Inl err
                  | Inr (calls, ctr') \<Rightarrow>
                      Inr ((take (length m + k) (c # cs), gen ctr, i, i + length m + k) # calls,
                           ctr'))))"

definition overlap :: "call_data list \<Rightarrow> nat \<Rightarrow> bool" where
  "overlap func_calls index = list_ex (\<lambda>(c, u, l, m). index < m \<and> l < index) func_calls"

definition get_overlaps :: "call_data list \<Rightarrow> nat \<Rightarrow> nat \<Rightarrow> call_data list" where
  "get_overlaps func_calls n m = filter (\<lambda>(c, u, l, e). e < m \<and> n < e) func_calls"

definition quote :: "string \<Rightarrow> string" where
  "quote uuid = dquote # uuid @ [dquote]"

text \<open>The loop \<open>for i in range(len(func_calls))\<close>, with \<open>k\<close> rounds to go.\<close>

fun rewrite_calls :: "nat \<Rightarrow> nat \<Rightarrow> string \<Rightarrow> call_data list \<Rightarrow> string \<times> call_data list" where
  "rewrite_calls i 0 val func_calls = (val, func_calls)"
| "rewrite_calls i (Suc k) val func_calls =
     (case func_calls ! i of
        (scall, uuid, n, m) \<Rightarrow>
          if \<not> overlap func_calls m
          then rewrite_calls (i + 1) k (replace1 scall (quote uuid) val)
                 (func_calls[i := (foldl (\<lambda>sc (ocall, ouuid, a, b). replace1 ocall (quote ouuid) sc)
                                       scall (get_overlaps func_calls n m), uuid, n, m)])
          else rewrite_calls (i + 1) k val func_calls)"

definition collect_func_calls :: "(nat \<Rightarrow> string) \<Rightarrow> nat \<Rightarrow> string
    \<Rightarrow> error + ((string \<times> call_data list) \<times> nat)" where
  "collect_func_calls gen ctr val =
     (case scan_calls gen val 0 0 ctr of
        Inl err \<Rightarrow> Inl err
      | Inr (calls, ctr') \<Rightarrow>
          Inr (rewrite_calls 0 (length calls) val (sort_key (\<lambda>(c, u, l, m). m) calls), ctr'))"

subsection \<open>\<open>gen_func_call_commands\<close>\<close>

definition call_args :: "string \<Rightarrow> string list" where
  "call_args scall =
     (let args = re_split comma_rx scall;
          args1 = args[0 := join ''('' (tl (split_char CHR ''('' (hd args)))]
      in args1[length args1 - 1 := butlast (last args1)])"

definition call_name :: "string \<Rightarrow> string" where
  "call_name scall = hd (re_split (seqs [wsS, lit CHR ''('']) scall)"

fun gen_func_call_commands :: "call_data list \<Rightarrow> command list" where
  "gen_func_call_commands [] = []"
| "gen_func_call_commands ((scall, uuid, n, m) # func_calls) =
     [FUNC_CALL (call_name scall) (call_args scall), STORE_FUNC_RET uuid,
      VALUE_RESULT (call_name scall) (call_args scall), SCOPE_DEL True]
     @ gen_func_call_commands func_calls"

subsection \<open>\<open>obtain_scoped_lines\<close>\<close>

text \<open>The loop of \<open>obtain_scoped_lines\<close> over the lines after line \<open>i\<close>: how many
  lines it takes, and the lines; \<open>None\<close> when \<open>input[i]\<close> leaves the list.\<close>

fun scoped :: "string list \<Rightarrow> nat \<Rightarrow> (nat \<times> string list) option" where
  "scoped [] scope_count = None"
| "scoped (l # ls) scope_count =
     (let c = (if endswith l ''{'' then scope_count + 1
               else if endswith l ''}'' then scope_count - 1 else scope_count)
      in if 0 < c then map_option (\<lambda>(n, xs). (Suc n, l # xs)) (scoped ls c)
         else Some (1, [l]))"

definition obtain_scoped_lines :: "nat \<Rightarrow> string list \<Rightarrow> error + (nat \<times> string list)" where
  "obtain_scoped_lines i input =
     (case scoped (drop (Suc i) input) 1 of
        None \<Rightarrow> Inl IndexError
      | Some (n, ls) \<Rightarrow> Inr (i + n, ls))"


subsection \<open>\<open>parse_input\<close>\<close>

text \<open>
  The \<open>if\<close>/\<open>elif\<close> chain of \<open>parse_input\<close> tests the line against the shapes in
  this order; a shape found by \<open>re.match\<close> carries the matched text \<open>smatch\<close>. The
  chain has no \<open>else\<close>: \<open>NoShape\<close> is a line that falls through it.
\<close>

datatype shape =
    ScopeNew | ScopeDel | FuncDecl string | ReturnStmt string | IfStmt string
  | DeclAssign string | Decl string | Assign string | NoShape

definition classify :: "string \<Rightarrow> shape" where
  "classify line =
     (if line = ''{'' then ScopeNew
      else if line = ''}'' then ScopeDel
      else case re_match func_rx line of Some smatch \<Rightarrow> FuncDecl smatch | None \<Rightarrow>
        (case re_match return_rx line of Some smatch \<Rightarrow> ReturnStmt smatch | None \<Rightarrow>
        (case re_match if_rx line of Some smatch \<Rightarrow> IfStmt smatch | None \<Rightarrow>
        (case re_match decl_assign_rx line of Some smatch \<Rightarrow> DeclAssign smatch | None \<Rightarrow>
        (case re_match decl_rx line of Some smatch \<Rightarrow> Decl smatch | None \<Rightarrow>
        (case re_match assign_rx line of Some smatch \<Rightarrow> Assign smatch | None \<Rightarrow> NoShape))))))"

text \<open>\<open>re.split("\s+", re.match(f"{name}+\s+{name}+", smatch).group(0))[1]\<close>.\<close>

definition second_name :: "string \<Rightarrow> error + string" where
  "second_name smatch =
     (case re_match decl_rx smatch of
        None \<Rightarrow> Inl AttributeError
      | Some g \<Rightarrow> (case re_split wsP g of a # b # r \<Rightarrow> Inr b | _ \<Rightarrow> Inl IndexError))"

fun param_names :: "string list \<Rightarrow> error + string list" where
  "param_names [] = Inr []"
| "param_names (x # xs) =
     (case re_split wsP x of
        a # b # r \<Rightarrow> (case param_names xs of Inl err \<Rightarrow> Inl err | Inr ps \<Rightarrow> Inr (b # ps))
      | _ \<Rightarrow> Inl IndexError)"

definition func_header :: "string \<Rightarrow> error + (string \<times> string list)" where
  "func_header smatch =
     (case second_name smatch of
        Inl err \<Rightarrow> Inl err
      | Inr fname \<Rightarrow>
          (case re_findall (seqs [lit CHR ''('', r_params, lit CHR '')'']) smatch of
             [] \<Rightarrow> Inl IndexError
           | x # xs \<Rightarrow>
               (case param_names (re_split comma_rx (butlast (tl x))) of
                  Inl err \<Rightarrow> Inl err
                | Inr fparams \<Rightarrow> Inr (fname, fparams))))"

text \<open>The head of an \<open>if\<close>: \<open>left, right = map(str.strip, re.split(...))\<close> raises
  \<open>ValueError\<close> unless the split gives two pieces.\<close>

definition if_header :: "string \<Rightarrow> error + (string \<times> string \<times> string)" where
  "if_header smatch =
     (case re_match (seqs [lits ''if'', wsP]) smatch of
        None \<Rightarrow> Inl AttributeError
      | Some pre \<Rightarrow>
          (let submatch = butlast (drop (length pre) smatch) in
           case re_split (seqs [wsS, r_cond, wsS]) submatch of
             [l, r] \<Rightarrow>
               (case re_findall r_cond submatch of
                  [] \<Rightarrow> Inl IndexError
                | condition # cs \<Rightarrow> Inr (strip l, condition, strip r))
           | _ \<Rightarrow> Inl ValueError))"

text \<open>The branches that do not recurse: the commands the line adds.\<close>

definition with_calls :: "(nat \<Rightarrow> string) \<Rightarrow> nat \<Rightarrow> string \<Rightarrow> (string \<Rightarrow> command list)
    \<Rightarrow> error + (command list \<times> nat)" where
  "with_calls gen ctr val rest =
     (case collect_func_calls gen ctr val of
        Inl err \<Rightarrow> Inl err
      | Inr ((val', func_calls), ctr') \<Rightarrow> Inr (gen_func_call_commands func_calls @ rest val', ctr'))"

fun simple_line :: "(nat \<Rightarrow> string) \<Rightarrow> nat \<Rightarrow> shape \<Rightarrow> error + (command list \<times> nat)" where
  "simple_line gen ctr ScopeNew = Inr ([SCOPE_NEW], ctr)"
| "simple_line gen ctr ScopeDel = Inr ([SCOPE_DEL False], ctr)"
| "simple_line gen ctr (ReturnStmt smatch) =
     (case filter (\<lambda>e. e \<noteq> []) (re_split (seqs [lits ''return'', wsP]) smatch) of
        [] \<Rightarrow> Inl IndexError
      | val # r \<Rightarrow> with_calls gen ctr val (\<lambda>v. [RETURN v]))"
| "simple_line gen ctr (DeclAssign smatch) =
     (case second_name smatch of
        Inl err \<Rightarrow> Inl err
      | Inr vname \<Rightarrow>
          (case re_split assign_op_rx smatch of
             a # val # r \<Rightarrow> with_calls gen ctr val (\<lambda>v. [DECLARE_VAR vname, ASSIGN_VAR vname v])
           | _ \<Rightarrow> Inl IndexError))"
| "simple_line gen ctr (Decl smatch) =
     (case second_name smatch of
        Inl err \<Rightarrow> Inl err
      | Inr vname \<Rightarrow> Inr ([DECLARE_VAR vname], ctr))"
| "simple_line gen ctr (Assign smatch) =
     (case re_split assign_op_rx smatch of
        [vname, val] \<Rightarrow> with_calls gen ctr val (\<lambda>v. [ASSIGN_VAR vname v])
      | _ \<Rightarrow> Inl ValueError)"
| "simple_line gen ctr sh = Inr ([], ctr)"

text \<open>The entry of \<open>clines\<close> a line adds:
  \<open>(len(commands)-1, len(commands) - ccount, lineno + j)\<close>.\<close>

definition cline :: "command list \<Rightarrow> nat \<Rightarrow> int \<Rightarrow> nat \<Rightarrow> int \<times> int \<times> int" where
  "cline cmds ccount lineno j = (int (length cmds) - 1, int (length cmds) - int ccount, lineno + int j)"

lemma scoped_length:
  "scoped ls c = Some (n, xs) \<Longrightarrow> length xs = n \<and> n \<le> length ls \<and> 0 < n"
proof (induction ls arbitrary: c n xs)
  case Nil
  then show ?case by simp
next
  case (Cons l ls)
  then show ?case
    by (auto simp: Let_def split: if_splits)
qed

lemma obtain_scoped_lines_bounds:
  "obtain_scoped_lines i input = Inr (j, ls) \<Longrightarrow> i < j \<and> j < length input \<and> length ls = j - i"
proof -
  assume a: "obtain_scoped_lines i input = Inr (j, ls)"
  then obtain n where n: "scoped (drop (Suc i) input) 1 = Some (n, ls)" and j: "j = i + n"
    unfolding obtain_scoped_lines_def by (auto split: option.splits)
  from scoped_length [OF n] have "length ls = n" "n \<le> length input - Suc i" "0 < n"
    by simp_all
  with j show ?thesis by arith
qed

text \<open>
  The loop \<open>while i < len(input)\<close> of \<open>parse_input\<close>; \<open>ctr\<close> counts the calls of
  \<open>uuid4\<close> so far. The body of a function is parsed without its closing brace, the
  bodies of an \<open>if\<close> and of its \<open>else\<close> with theirs.
\<close>

function parse_loop :: "(nat \<Rightarrow> string) \<Rightarrow> string list \<Rightarrow> int \<Rightarrow> nat \<Rightarrow> command list \<Rightarrow> line_data
    \<Rightarrow> nat \<Rightarrow> error + ((command list \<times> line_data) \<times> nat)" where
  "parse_loop gen input lineno i commands clines ctr =
     (if \<not> i < length input then Inr ((commands, clines), ctr)
      else case classify (input ! i) of
        FuncDecl smatch \<Rightarrow>
          (case func_header smatch of
             Inl err \<Rightarrow> Inl err
           | Inr (fname, fparams) \<Rightarrow>
               (case obtain_scoped_lines i input of
                  Inl err \<Rightarrow> Inl err
                | Inr (i1, func_lines) \<Rightarrow>
                    (case parse_loop gen (butlast func_lines) (lineno + int i + 1) 0 [] [] ctr of
                       Inl err \<Rightarrow> Inl err
                     | Inr (fcommand_data, ctr1) \<Rightarrow>
                         parse_loop gen input lineno (i1 + 1)
                           (commands @ [DECLARE_FUNC fname fcommand_data fparams])
                           (clines @ [cline (commands @ [DECLARE_FUNC fname fcommand_data fparams])
                                        (length commands) lineno i])
                           ctr1)))
      | IfStmt smatch \<Rightarrow>
          (case if_header smatch of
             Inl err \<Rightarrow> Inl err
           | Inr (left, condition, right) \<Rightarrow>
               (case obtain_scoped_lines i input of
                  Inl err \<Rightarrow> Inl err
                | Inr (i1, if_lines) \<Rightarrow>
                    if \<not> i1 + 1 < length input then Inl IndexError
                    else (case (if startswith (input ! (i1 + 1)) ''else''
                                then obtain_scoped_lines (i1 + 1) input else Inr (i1, [])) of
                            Inl err \<Rightarrow> Inl err
                          | Inr (i2, else_lines) \<Rightarrow>
                              (case parse_loop gen if_lines (lineno + int i + 1) 0 [] [] ctr of
                                 Inl err \<Rightarrow> Inl err
                               | Inr (if_command_data, ctr1) \<Rightarrow>
                                   (case parse_loop gen else_lines
                                           (lineno + int i + int (length if_lines) + 2) 0 [] [] ctr1 of
                                      Inl err \<Rightarrow> Inl err
                                    | Inr (else_command_data, ctr2) \<Rightarrow>
                                        parse_loop gen input lineno (i2 + 1)
                                          (commands @ [CONDITIONAL left condition right
                                                         if_command_data else_command_data])
                                          (clines @ [cline (commands @ [CONDITIONAL left condition right
                                                         if_command_data else_command_data])
                                                       (length commands) lineno i])
                                          ctr2)))))
      | sh \<Rightarrow>
          (case simple_line gen ctr sh of
             Inl err \<Rightarrow> Inl err
           | Inr (new, ctr1) \<Rightarrow>
               parse_loop gen input lineno (i + 1) (commands @ new)
                 (clines @ [cline (commands @ new) (length commands) lineno i]) ctr1))"
  by pat_completeness auto
termination
proof (relation "measures [\<lambda>(gen, input, lineno, i, commands, clines, ctr). length input,
                           \<lambda>(gen, input, lineno, i, commands, clines, ctr). length input - i]",
       goal_cases)
  case 1
  then show ?case by simp
qed (auto dest!: obtain_scoped_lines_bounds split: if_splits)

declare parse_loop.simps [simp del]

definition parse_input :: "(nat \<Rightarrow> string) \<Rightarrow> nat \<Rightarrow> string list \<Rightarrow> int
    \<Rightarrow> error + ((command list \<times> line_data) \<times> nat)" where
  "parse_input gen ctr input lineno = parse_loop gen input lineno 0 [] [] ctr"


section \<open>The program (main.py)\<close>

text \<open>
  \<open>read_input\<close> returns the answer to \<open>"Call Type: "\<close> (a member of
  \<open>CallTypeEnum\<close>) first and the answer to \<open>"Typing: "\<close> (true for \<open>S\<close> or
  \<open>STATIC\<close>) second, then the lines. \<open>main\<close> binds them to \<open>type\<close> and
  \<open>calltype\<close>, and builds the stack as \<open>RuntimeStack(typing, calltype)\<close>: here
  \<open>typing\<close> is the module imported in the first line of main.py, an object that
  counts as true, and \<open>calltype\<close> is the boolean. \<open>execute_program\<close> gets the same
  boolean as its \<open>calltype\<close>. The member of \<open>CallTypeEnum\<close> goes to the parser
  only, which does not use it.
\<close>

definition main :: "(nat \<Rightarrow> string) \<Rightarrow> nat \<Rightarrow> CallTypeEnum \<Rightarrow> bool \<Rightarrow> string list
    \<Rightarrow> (error + RuntimeStack) option" where
  "main gen fuel call_answer static_answer input =
     (case parse_input gen 0 input 0 of
        Inl err \<Rightarrow> Some (Inl err)
      | Inr ((commands, lines), ctr) \<Rightarrow>
          execute_program fuel (RuntimeStack_init True (Boolean static_answer))
            (Boolean static_answer) commands lines)"


section \<open>Names found and not found\<close>

text \<open>
  \<open>visible r name fname\<close>: the test of \<open>ActivatationRecord.get_value\<close> and
  \<open>set_value\<close> finds \<open>name\<close> in the record \<open>r\<close>.
\<close>

definition visible :: "ActivatationRecord \<Rightarrow> string \<Rightarrow> string option \<Rightarrow> bool" where
  "visible r name fname =
     (if fname \<noteq> None \<and> fname \<noteq> Some []
      then found_before (map fst (ar_record r)) name (the fname)
      else name \<in> set (map fst (ar_record r)))"

text \<open>
  \<open>unresolved self name\<close>: the search of \<open>RuntimeStack.get_value\<close> and
  \<open>set_value\<close> finds \<open>name\<close> in no record it tries. Outside a call, or with
  \<open>typing\<close> true, these are all records. In the other branch, with the active call
  \<open>(rindex, sindex, fname)\<close>, these are the records from \<open>sindex\<close> upwards, and the
  records from \<open>rindex\<close> downwards searched up to the key \<open>fname\<close>.
\<close>

definition unresolved :: "RuntimeStack \<Rightarrow> string \<Rightarrow> bool" where
  "unresolved self name =
     (if func_stack self \<noteq> [] \<and> \<not> typing self
      then (case last (func_stack self) of
              (rindex, sindex, fname) \<Rightarrow>
                (case rindex of
                   RInt r \<Rightarrow>
                     0 \<le> sindex \<and> r < int (length (records self))
                     \<and> list_all (\<lambda>rec. \<not> visible rec name None) (drop (nat sindex) (records self))
                     \<and> list_all (\<lambda>rec. \<not> visible rec name (Some fname))
                          (take (nat (r + 1)) (records self))
                 | RTup a b c \<Rightarrow> False))
      else list_all (\<lambda>rec. \<not> visible rec name None) (records self))"

text \<open>
  A stack with \<open>typing\<close> false inside a call of \<open>g\<close>: the record of the block that
  declares \<open>h\<close> and \<open>g\<close>, and the record of the call with the parameter \<open>a\<close>. It is
  the stack on which the body of \<open>g\<close> runs in the program
  \<open>{ int h(int a) { return a }  int g(int a) { x = h }  int r = g(1) }\<close>.
\<close>

definition c7_stack :: RuntimeStack where
  "c7_stack =
     \<lparr>records =
        [\<lparr>ar_record =
            [(''h'', VFun (Function ''h'' ([RETURN ''a''], [(0, 1, 2)]) [''a''] 0)),
             (''g'', VFun (Function ''g'' ([ASSIGN_VAR ''x'' ''h''], [(0, 1, 5)]) [''a''] 0))],
          ar_calltype = Member CBV\<rparr>,
         \<lparr>ar_record = [(''a'', VInt 1)], ar_calltype = Member CBV\<rparr>],
      typing = False, calltype = Member CBV, ret = VNone,
      func_stack = [(RInt 0, 1, ''g'')], func_returns = []\<rparr>"

section \<open>Scenarios\<close>

text \<open>
  A supply for \<open>uuid4\<close>: the tokens \<open>t\<close>, \<open>tx\<close>, \<open>txx\<close>, ... No token is two
  tokens joined, as no value of \<open>uuid4\<close> (36 characters) is two of them joined.
\<close>

definition token :: "nat \<Rightarrow> string" where
  "token n = CHR ''t'' # replicate n (CHR ''x'')"

text \<open>
  Parsing the lines and running the commands from the stack of
  \<open>RuntimeStack.__init__\<close>, as \<open>main\<close> does, with the two settings given as
  they are meant: \<open>type\<close> for the stack's \<open>typing\<close> and a member of
  \<open>CallTypeEnum\<close> as the calling convention.
\<close>

definition run_source :: "nat \<Rightarrow> bool \<Rightarrow> pyconv \<Rightarrow> string list \<Rightarrow> (error + RuntimeStack) option" where
  "run_source fuel type ct input =
     (case parse_input token 0 input 0 of
        Inl err \<Rightarrow> Some (Inl err)
      | Inr ((commands, lines), ctr) \<Rightarrow>
          execute_program fuel (RuntimeStack_init type ct) ct commands lines)"

text \<open>The program of C1, the same with the call written as an initialiser, and the
  stack after the program run inside a block.\<close>

definition c1_program :: "string list" where
  "c1_program = [''int inc(int n) {'', ''n = n + 1'', ''}'', ''int a = 1'', ''inc(a)'']"

definition c1_assigned :: "string list" where
  "c1_assigned =
     [''{'', ''int inc(int n) {'', ''n = n + 1'', ''}'', ''int a = 1'', ''int r = inc(a)'']"

definition c1_final :: "bool \<Rightarrow> RuntimeStack" where
  "c1_final type =
     \<lparr>records =
        [\<lparr>ar_record =
            [(''inc'', VFun (Function ''inc'' ([ASSIGN_VAR ''n'' ''n + 1''], [(0, 1, 2)]) [''n''] 0)),
             (''a'', VInt 1)],
          ar_calltype = Member CBVR\<rparr>],
      typing = type, calltype = Member CBVR, ret = VNone, func_stack = [], func_returns = []\<rparr>"

text \<open>The program of C2: \<open>v\<close> is declared in the block of \<open>f\<close>, after \<open>f\<close>.\<close>

definition c2_program :: "string list" where
  "c2_program =
     [''{'', ''int f(int p) {'', ''return v'', ''}'', ''int v = 5'', ''int r = f(1)'', ''}'']"

text \<open>A program for C3, and the record \<open>apply_func_params\<close> builds for the call
  \<open>f(a)\<close> under CBNEED.\<close>

definition c3_program :: "string list" where
  "c3_program =
     [''{'', ''int f(int n) {'', ''int r = n + n'', ''}'', ''int a = 1'', ''int z = f(a)'', ''}'']"

definition c3_record :: ActivatationRecord where
  "c3_record = \<lparr>ar_record = [(''n'', VStr (Src [Name ''a'']))], ar_calltype = Member CBNEED\<rparr>"

definition c3_literal :: ActivatationRecord where
  "c3_literal = \<lparr>ar_record = [(''n'', VStr (Src [Num ''5'']))], ar_calltype = Member CBNEED\<rparr>"

text \<open>The program of C6 and the stack after it, run inside a block.\<close>

definition c6_program :: "string list" where
  "c6_program = [''int x = 3'', ''int y = 4'', ''int z = x + y'']"

definition c6_final :: "bool \<Rightarrow> RuntimeStack" where
  "c6_final type =
     \<lparr>records =
        [\<lparr>ar_record = [(''x'', VInt 3), (''y'', VInt 4), (''z'', VInt 7)],
          ar_calltype = Member CBV\<rparr>],
      typing = type, calltype = Member CBV, ret = VNone, func_stack = [], func_returns = []\<rparr>"

text \<open>A program for C8: two calls side by side in one expression.\<close>

definition c8_program :: "string list" where
  "c8_program = [''{'', ''int f(int n) {'', ''return n'', ''}'', ''int z = f(1) + f(2)'', ''}'']"





definition first_found :: "RuntimeStack \<Rightarrow> string \<Rightarrow> nat \<Rightarrow> bool" where
  "first_found self name k =
     (k < length (records self)
      \<and> (if func_stack self \<noteq> [] \<and> \<not> typing self
         then (case last (func_stack self) of
                 (rindex, sindex, fname) \<Rightarrow>
                   0 \<le> sindex
                   \<and> (if sindex \<le> int k
                      then visible (records self ! k) name None
                           \<and> list_all (\<lambda>r. \<not> visible r name None) (drop (Suc k) (records self))
                      else list_all (\<lambda>r. \<not> visible r name None) (drop (nat sindex) (records self))
                           \<and> (case rindex of
                                 RInt r \<Rightarrow>
                                   int k \<le> r \<and> r < int (length (records self))
                                   \<and> visible (records self ! k) name (Some fname)
                                   \<and> list_all (\<lambda>r. \<not> visible r name (Some fname))
                                        (drop (Suc k) (take (nat (r + 1)) (records self)))
                               | RTup a b c \<Rightarrow> False)))
         else visible (records self ! k) name None
              \<and> list_all (\<lambda>r. \<not> visible r name None) (drop (Suc k) (records self))))"

definition c9_outer :: ActivatationRecord where
  "c9_outer = \<lparr>ar_record = [(''v'', VInt 5)], ar_calltype = Member CBV\<rparr>"

definition c9_inner :: "pyval \<Rightarrow> ActivatationRecord" where
  "c9_inner w = \<lparr>ar_record = [(''v'', w)], ar_calltype = Member CBV\<rparr>"

definition c9_stack :: "pyval \<Rightarrow> RuntimeStack" where
  "c9_stack w =
     \<lparr>records = [c9_outer, c9_inner w], typing = True, calltype = Member CBV, ret = VNone,
      func_stack = [], func_returns = []\<rparr>"


text \<open>The program of \<open>c9_static\<close>, without the closing brace of the block, so that the
  record of the block is there at the end.\<close>

definition c9_program :: "string list" where
  "c9_program = [''{'', ''int f(int a) {'', ''y = 1'', ''}'', ''int y'', ''int r = f(1)'']"

text \<open>
  For C10. \<open>line_counts ld\<close> is the number of commands the lines of \<open>ld\<close> run.
  \<open>c10_cond\<close> is the command the parser makes of
  \<open>if x = 1 {\<close>, \<open>x = 2\<close>, \<open>}\<close>; \<open>c10_stack v k\<close> is a stack of one record with
  \<open>x = v\<close>, followed by \<open>k\<close> empty records.
\<close>

definition line_counts :: "line_data \<Rightarrow> nat" where
  "line_counts ld = sum_list (map (\<lambda>(cl, ccount, lineno). nat ccount) ld)"

definition c10_cond :: command where
  "c10_cond =
     CONDITIONAL ''x'' ''='' ''1''
       ([ASSIGN_VAR ''x'' ''2'', SCOPE_DEL False], [(0, 1, 1), (1, 1, 2)]) ([], [])"

definition c10_stack :: "int \<Rightarrow> nat \<Rightarrow> RuntimeStack" where
  "c10_stack v k =
     \<lparr>records = \<lparr>ar_record = [(''x'', VInt v)], ar_calltype = Member CBV\<rparr>
                 # replicate k (new_record (Member CBV)),
      typing = True, calltype = Member CBV, ret = VNone, func_stack = [], func_returns = []\<rparr>"

text \<open>The command the parser makes of \<open>if x = 1 {\<close>, \<open>if x = 2 {\<close>, \<open>x = 5\<close>, \<open>}\<close>,
  \<open>}\<close>: a conditional whose branch holds a conditional without \<open>else\<close>.\<close>

definition c10_nested :: command where
  "c10_nested =
     CONDITIONAL ''x'' ''='' ''1''
       ([CONDITIONAL ''x'' ''='' ''2''
           ([ASSIGN_VAR ''x'' ''5'', SCOPE_DEL False], [(0, 1, 2), (1, 1, 3)]) ([], []),
         SCOPE_DEL False],
        [(0, 1, 1), (1, 1, 4)])
       ([], [])"

text \<open>The program of \<open>c7_stack\<close>: inside \<open>g\<close> the name \<open>x\<close> is not declared.\<close>

definition c7_program :: "string list" where
  "c7_program =
     [''{'', ''int h(int a) {'', ''return a'', ''}'', ''int g(int a) {'', ''x = h'', ''}'',
      ''int r = g(1)'', ''}'']"


section \<open>Properties\<close>

subsection \<open>Searching the records\<close>

lemma ar_get_value_visible:
  "ar_get_value r name fname = (if visible r name fname then ar_obtain r name else Inr (VNone, r))"
  by (simp add: visible_def del: set_map)

lemma ar_set_value_visible:
  "ar_set_value r name v fname =
     (if visible r name fname
      then (case assign r name v of Inl err \<Rightarrow> Inl err | Inr r' \<Rightarrow> Inr (True, r'))
      else Inr (False, r))"
  by (simp add: visible_def del: set_map)

lemma py_idx_nonneg:
  "0 \<le> i \<Longrightarrow> i < int (length xs) \<Longrightarrow> py_idx xs i = Some (nat i)"
  by (simp add: py_idx_def)

lemma get_loop_absent:
  "\<forall>i \<in> set is. 0 \<le> i \<and> i < int (length (records st)) \<and> \<not> visible (records st ! nat i) name fname
   \<Longrightarrow> get_loop st name fname is = Inr (VNone, st)"
proof (induction "is")
  case Nil
  then show ?case by simp
next
  case (Cons i "is")
  have i: "0 \<le> i" "i < int (length (records st))" "\<not> visible (records st ! nat i) name fname"
    using Cons.prems by simp_all
  have rest: "get_loop st name fname is = Inr (VNone, st)"
    using Cons.IH Cons.prems by simp
  show ?case
    using i rest by (simp add: py_idx_nonneg ar_get_value_visible del: ar_get_value.simps)
qed

lemma set_loop_absent:
  "\<forall>i \<in> set is. 0 \<le> i \<and> i < int (length (records st)) \<and> \<not> visible (records st ! nat i) name fname
   \<Longrightarrow> \<not> early \<or> eval_arg val = Inr v
   \<Longrightarrow> set_loop st name val early fname is = Inr (False, st)"
proof (induction "is")
  case Nil
  then show ?case by simp
next
  case (Cons i "is")
  have i: "0 \<le> i" "i < int (length (records st))" "\<not> visible (records st ! nat i) name fname"
    using Cons.prems(1) by simp_all
  have rest: "set_loop st name val early fname is = Inr (False, st)"
    using Cons.IH Cons.prems by simp
  show ?case
    using i rest Cons.prems(2)
    by (auto simp: py_idx_nonneg ar_set_value_visible simp del: ar_set_value.simps)
qed

lemma set_range_down: "set (range_down a b) = {i. b < i \<and> i \<le> a}"
proof -
  have "\<And>x. b < x \<Longrightarrow> x \<le> a \<Longrightarrow> x \<in> (\<lambda>k. a - int k) ` {0..<nat (a - b)}"
  proof -
    fix x assume "b < x" "x \<le> a"
    then have "x = a - int (nat (a - x))" "nat (a - x) \<in> {0..<nat (a - b)}" by simp_all
    then show "x \<in> (\<lambda>k. a - int k) ` {0..<nat (a - b)}" by (rule image_eqI)
  qed
  then show ?thesis by (auto simp: range_down_def)
qed

lemma list_all_drop_nth:
  "list_all P (drop n xs) \<Longrightarrow> n \<le> k \<Longrightarrow> k < length xs \<Longrightarrow> P (xs ! k)"
proof -
  assume a: "list_all P (drop n xs)" and nk: "n \<le> k" and k: "k < length xs"
  have "k - n < length (drop n xs)" using nk k by simp
  then have "P (drop n xs ! (k - n))" using a by (simp add: list_all_length)
  then show ?thesis using nk k by simp
qed

lemma list_all_take_nth:
  "list_all P (take n xs) \<Longrightarrow> k < n \<Longrightarrow> k < length xs \<Longrightarrow> P (xs ! k)"
proof -
  assume a: "list_all P (take n xs)" and kn: "k < n" and k: "k < length xs"
  have "k < length (take n xs)" using kn k by simp
  then have "P (take n xs ! k)" using a by (simp add: list_all_length)
  then show ?thesis using kn by simp
qed


subsection \<open>Names that are not found\<close>

text \<open>
  A name that the search finds in no record: a read returns \<open>None\<close> and leaves the
  stack as it is. A write returns \<open>False\<close> and leaves the stack as it is when the
  search is the plain one (no call is active, or \<open>typing\<close> is true), and in the
  other branch when \<open>eval(value)\<close> succeeds.
\<close>

lemma unresolved_read_write:
  assumes "unresolved st name"
  shows "get_value st name = Inr (VNone, st)
       \<and> (func_stack st = [] \<or> typing st \<or> (\<exists>v. eval_arg val = Inr v)
            \<longrightarrow> set_value st name val = Inr (False, st))"
proof (cases "func_stack st \<noteq> [] \<and> \<not> typing st")
  case False
  then have all: "list_all (\<lambda>rec. \<not> visible rec name None) (records st)"
    using assms by (simp add: unresolved_def)
  have idx: "\<forall>i \<in> set (range_down (int (length (records st)) - 1) (- 1)).
      0 \<le> i \<and> i < int (length (records st)) \<and> \<not> visible (records st ! nat i) name None"
    using all by (auto simp: set_range_down list_all_length)
  have g: "get_value st name = get_loop st name None (range_down (int (length (records st)) - 1) (- 1))"
    unfolding get_value_def by (rule if_not_P [OF False])
  have s: "set_value st name val
     = set_loop st name val False None (range_down (int (length (records st)) - 1) (- 1))"
    unfolding set_value_def by (rule if_not_P [OF False])
  show ?thesis
    unfolding g s using get_loop_absent [OF idx] set_loop_absent [OF idx, where early = False]
    by simp
next
  case True
  obtain rindex sindex fname where last: "last (func_stack st) = (rindex, sindex, fname)"
    by (cases "last (func_stack st)") auto
  from assms True last obtain r where r: "rindex = RInt r"
    and s0: "0 \<le> sindex" and rlen: "r < int (length (records st))"
    and a1: "list_all (\<lambda>rec. \<not> visible rec name None) (drop (nat sindex) (records st))"
    and a2: "list_all (\<lambda>rec. \<not> visible rec name (Some fname)) (take (nat (r + 1)) (records st))"
    by (auto simp: unresolved_def split: rix.splits)
  have idx1: "\<forall>i \<in> set (range_down (int (length (records st)) - 1) (sindex - 1)).
      0 \<le> i \<and> i < int (length (records st)) \<and> \<not> visible (records st ! nat i) name None"
    using s0 list_all_drop_nth [OF a1] by (auto simp: set_range_down)
  have idx2: "\<forall>i \<in> set (range_down r (- 1)).
      0 \<le> i \<and> i < int (length (records st)) \<and> \<not> visible (records st ! nat i) name (Some fname)"
    using rlen list_all_take_nth [OF a2] by (auto simp: set_range_down)
  have g: "get_value st name = Inr (VNone, st)"
    unfolding get_value_def if_P [OF True] last r
    using get_loop_absent [OF idx1] get_loop_absent [OF idx2] by simp
  have s: "set_value st name val = Inr (False, st)" if "eval_arg val = Inr v" for v
    unfolding set_value_def if_P [OF True] last r
    using set_loop_absent [OF idx1, where early = True and val = val and v = v]
      set_loop_absent [OF idx2, where early = True and val = val and v = v] that
    by simp
  show ?thesis using g s True by auto
qed


lemma c7_run: "run_source (Suc fuel) False (Member CBV) c7_program = Some (Inl TypeError)"
  by code_simp

lemma c7_writes:
  "unresolved c7_stack ''x''
   \<and> set_value c7_stack ''x'' (VStr StrFun) = Inl TypeError
   \<and> unresolved (c7_stack\<lparr>typing := True\<rparr>) ''x''
   \<and> set_value (c7_stack\<lparr>typing := True\<rparr>) ''x'' (VStr StrFun) = Inr (False, c7_stack\<lparr>typing := True\<rparr>)
   \<and> declare_function c7_stack ''k'' ([], []) [] = Inl TypeError"
  by code_simp

text \<open>
  C7 on the code. In \<open>c7_stack\<close> (a call is active, \<open>typing\<close> is false) the name
  \<open>x\<close> is found in no record, and the write \<open>x = h\<close> of \<open>c7_program\<close>, whose value
  is the text \<open>str\<close> gives for a function, raises \<open>TypeError\<close>: this branch of
  \<open>set_value\<close> computes \<open>eval(value)\<close> before it tries a record. It does not
  return \<open>False\<close>, and the program ends there. On the same stack with \<open>typing\<close>
  true the plain branch returns \<open>False\<close> and changes nothing, as the claim says.
  The same evaluation makes the declaration of a function inside a call raise
  \<open>TypeError\<close>: \<open>declare_function\<close> passes a \<open>Function\<close>, which is no string.
\<close>

theorem unresolved_write_raises:
  "unresolved c7_stack ''x''
   \<and> set_value c7_stack ''x'' (VStr StrFun) = Inl TypeError
   \<and> unresolved (c7_stack\<lparr>typing := True\<rparr>) ''x''
   \<and> set_value (c7_stack\<lparr>typing := True\<rparr>) ''x'' (VStr StrFun) = Inr (False, c7_stack\<lparr>typing := True\<rparr>)
   \<and> declare_function c7_stack ''k'' ([], []) [] = Inl TypeError
   \<and> (\<forall>fuel. run_source (Suc fuel) False (Member CBV) c7_program = Some (Inl TypeError))"
  using c7_writes c7_run by simp

subsection \<open>A binding that is declared and not set\<close>



lemma get_value_plain:
  "func_stack st = [] \<or> typing st
   \<Longrightarrow> get_value st name = get_loop st name None (range_down (int (length (records st)) - 1) (- 1))"
  by (auto simp: get_value_def)

lemma get_value_call:
  "func_stack st \<noteq> [] \<Longrightarrow> \<not> typing st \<Longrightarrow> last (func_stack st) = (rindex, sindex, fname)
   \<Longrightarrow> get_value st name =
       (case get_loop st name None (range_down (int (length (records st)) - 1) (sindex - 1)) of
          Inl err \<Rightarrow> Inl err
        | Inr (v, st1) \<Rightarrow>
            if v \<noteq> VNone then Inr (v, st1)
            else (case rindex of
                    RTup a b c \<Rightarrow> Inl TypeError
                  | RInt r \<Rightarrow> get_loop st1 name (Some fname) (range_down r (- 1))))"
  by (simp add: get_value_def)



lemma get_loop_length:
  "get_loop st name fname is = Inr (v, st') \<Longrightarrow> length (records st') = length (records st)"
proof (induction "is" arbitrary: st)
  case Nil
  then show ?case by simp
next
  case (Cons i "is")
  from Cons.prems obtain k where k: "py_idx (records st) i = Some k"
    by (cases "py_idx (records st) i") simp_all
  from Cons.prems k obtain w r where r: "ar_get_value (records st ! k) name fname = Inr (w, r)"
    by (cases "ar_get_value (records st ! k) name fname") (auto simp del: ar_get_value.simps)
  show ?case
  proof (cases "w \<noteq> VNone")
    case True
    then show ?thesis using Cons.prems k r by (auto simp del: ar_get_value.simps)
  next
    case False
    then have "get_loop (st\<lparr>records := (records st)[k := r]\<rparr>) name fname is = Inr (v, st')"
      using Cons.prems k r by (simp del: ar_get_value.simps)
    from Cons.IH [OF this] show ?thesis by simp
  qed
qed





















text \<open>
  The whole program: with \<open>typing\<close> false \<open>y\<close> is still unset at the end, with
  \<open>typing\<close> true the call has set it.
\<close>

lemma c9_program_run:
  "map_option (map_sum id (\<lambda>st. map (\<lambda>r. map_of (ar_record r) ''y'') (records st)))
     (run_source 20 False (Member CBV) c9_program) = Some (Inr [Some VNone])
   \<and> map_option (map_sum id (\<lambda>st. map (\<lambda>r. map_of (ar_record r) ''y'') (records st)))
     (run_source 20 True (Member CBV) c9_program) = Some (Inr [Some (VInt 1)])"
  by code_simp

text \<open>A value text that does not evaluate: the write raises and sets nothing.\<close>

lemma unset_write_of_function_text:
  "first_found (c9_stack VNone) ''v'' 1
   \<and> set_value (c9_stack VNone) ''v'' (VStr StrFun) = Inl TypeError"
  by code_simp

subsection \<open>The records of a conditional\<close>

lemma run_count_index:
  "run_count fuel cmds k i st ct = Some (Inr (j, st')) \<Longrightarrow> j = i + k"
proof (induction k arbitrary: i st)
  case 0
  then show ?case by simp
next
  case (Suc k)
  from Suc.prems have i: "i < length cmds" by (simp split: if_splits)
  from Suc.prems i obtain st1 where a: "apply_cmd fuel (cmds ! i) st ct = Some (Inr st1)"
    and r: "run_count fuel cmds k (Suc i) st1 ct = Some (Inr (j, st'))"
    by (auto split: option.splits sum.splits)
  from Suc.IH [OF r] show ?case by simp
qed

lemma run_lines_append:
  "run_lines fuel cmds (ld @ ld') i st ct =
     (case run_lines fuel cmds ld i st ct of
        None \<Rightarrow> None
      | Some (Inl err) \<Rightarrow> Some (Inl err)
      | Some (Inr st1) \<Rightarrow> run_lines fuel cmds ld' (i + line_counts ld) st1 ct)"
proof (induction ld arbitrary: i st)
  case Nil
  then show ?case by (simp add: line_counts_def)
next
  case (Cons e ld)
  obtain cl ccount lineno where e: "e = (cl, ccount, lineno)" by (cases e)
  show ?case
  proof (cases "run_count fuel cmds (nat ccount) i st ct")
    case None
    then show ?thesis using e by simp
  next
    case (Some res)
    show ?thesis
    proof (cases res)
      case (Inl err)
      then show ?thesis using e Some by simp
    next
      case (Inr p)
      obtain j st1 where p: "p = (j, st1)" by (cases p)
      have j: "j = i + nat ccount" using run_count_index Some Inr p by blast
      have lc: "line_counts (e # ld) = nat ccount + line_counts ld"
        using e by (simp add: line_counts_def)
      have idx: "i + line_counts (e # ld) = j + line_counts ld" using j lc by simp
      show ?thesis
        unfolding idx using e Some Inr p Cons.IH [of j st1] by simp
    qed
  qed
qed

lemma get_value_length:
  "get_value st name = Inr (v, st') \<Longrightarrow> length (records st') = length (records st)"
proof -
  assume a: "get_value st name = Inr (v, st')"
  show ?thesis
  proof (cases "func_stack st = [] \<or> typing st")
    case True
    then show ?thesis using a get_loop_length unfolding get_value_plain [OF True] by blast
  next
    case False
    then have fs: "func_stack st \<noteq> []" and ty: "\<not> typing st" by simp_all
    obtain rindex sindex fname where last: "last (func_stack st) = (rindex, sindex, fname)"
      by (cases "last (func_stack st)") auto
    from a obtain w st1 where
      p1: "get_loop st name None (range_down (int (length (records st)) - 1) (sindex - 1)) = Inr (w, st1)"
      unfolding get_value_call [OF fs ty last] by (auto split: sum.splits)
    have l1: "length (records st1) = length (records st)" using get_loop_length [OF p1] .
    show ?thesis
    proof (cases "w \<noteq> VNone")
      case True
      then show ?thesis using a p1 l1 unfolding get_value_call [OF fs ty last] by simp
    next
      case False
      then obtain r where "get_loop st1 name (Some fname) (range_down r (- 1)) = Inr (v, st')"
        using a p1 unfolding get_value_call [OF fs ty last] by (auto split: rix.splits)
      from get_loop_length [OF this] l1 show ?thesis by simp
    qed
  qed
qed

lemma eval_ast_length:
  "eval_ast (\<lambda>x s. get_value s x) func_ret e st = Inr (v, st')
   \<Longrightarrow> length (records st') = length (records st)"
proof (induction e arbitrary: st v st')
  case (ENum n)
  then show ?case by simp
next
  case (EGet x)
  then show ?case using get_value_length by simp
next
  case (ERet k)
  then show ?case by (simp split: sum.splits)
next
  case (ENeg e)
  then show ?case by (fastforce split: sum.splits)
next
  case (EPos e)
  then show ?case by (fastforce split: sum.splits)
next
  case (EBin c a b)
  from EBin.prems obtain va s1 vb s2 where
    a: "eval_ast (\<lambda>x s. get_value s x) func_ret a st = Inr (va, s1)" and
    b: "eval_ast (\<lambda>x s. get_value s x) func_ret b s1 = Inr (vb, s2)" and s2: "st' = s2"
    by (auto split: sum.splits)
  from EBin.IH(1) [OF a] EBin.IH(2) [OF b] s2 show ?case by simp
qed

lemma eval_condition_length:
  "eval_condition st left c right = Inr (b, st') \<Longrightarrow> length (records st') = length (records st)"
proof -
  assume a: "eval_condition st left c right = Inr (b, st')"
  then obtain l r va s1 vb where
    "eval_ast (\<lambda>x s. get_value s x) func_ret l st = Inr (va, s1)"
    "eval_ast (\<lambda>x s. get_value s x) func_ret r s1 = Inr (vb, st')"
    unfolding eval_condition_def by (auto split: option.splits sum.splits)
  then show ?thesis using eval_ast_length by metis
qed


text \<open>
  C10, as the code has it. \<open>conditional\<close> evaluates the condition, pushes one fresh
  record and runs the chosen branch \<open>(cmds, lines)\<close> on that stack; the number of
  records is then one more than before the conditional. When the branch is empty
  (the condition is false and there is no \<open>else\<close>, so the branch is the parse of
  no lines) the conditional ends there, with the record still pushed. When the
  branch ends with the command of its closing brace, \<open>SCOPE_DEL False\<close> on a line of
  its own, the closing brace pops one record, and the conditional changes the
  number of records by what the lines before the brace change it: not at all when
  they end with as many records as they started with.
\<close>

theorem conditional_record_count:
  assumes cond: "eval_condition st left c right = Inr (b, st0)"
    and chosen: "(if b then ifc else ec) = (cmds, lines)"
  shows "apply_cmd (Suc fuel) (CONDITIONAL left c right ifc ec) st ct
           = run_lines fuel cmds lines 0 (push_record st0 (new_record ct)) ct
       \<and> length (records (push_record st0 (new_record ct))) = length (records st) + 1
       \<and> (cmds = [] \<and> lines = [] \<longrightarrow>
            apply_cmd (Suc fuel) (CONDITIONAL left c right ifc ec) st ct
              = Some (Inr (push_record st0 (new_record ct))))
       \<and> (cmds = body @ [SCOPE_DEL False] \<and> lines = ld @ [(cl, 1, ln)]
            \<and> line_counts ld = length body
            \<and> run_lines fuel cmds ld 0 (push_record st0 (new_record ct)) ct = Some (Inr st1)
            \<and> records st1 \<noteq> [] \<longrightarrow>
            apply_cmd (Suc fuel) (CONDITIONAL left c right ifc ec) st ct
              = Some (Inr (st1\<lparr>records := butlast (records st1)\<rparr>))
            \<and> int (length (butlast (records st1))) - int (length (records st))
                = int (length (records st1)) - int (length (records (push_record st0 (new_record ct)))))"
proof -
  have run: "apply_cmd (Suc fuel) (CONDITIONAL left c right ifc ec) st ct
           = run_lines fuel cmds lines 0 (push_record st0 (new_record ct)) ct"
    using cond chosen by (cases b) auto
  have len: "length (records (push_record st0 (new_record ct))) = length (records st) + 1"
    using eval_condition_length [OF cond] by (simp add: push_record_def)
  have closing: "apply_cmd (Suc fuel) (CONDITIONAL left c right ifc ec) st ct
              = Some (Inr (st1\<lparr>records := butlast (records st1)\<rparr>))"
    if c: "cmds = body @ [SCOPE_DEL False]" and l: "lines = ld @ [(cl, 1, ln)]"
      and n: "line_counts ld = length body"
      and r: "run_lines fuel cmds ld 0 (push_record st0 (new_record ct)) ct = Some (Inr st1)"
      and ne: "records st1 \<noteq> []"
  proof -
    have "run_lines fuel cmds lines 0 (push_record st0 (new_record ct)) ct
        = run_lines fuel cmds [(cl, 1, ln)] (length body) st1 ct"
      unfolding l run_lines_append r using n by simp
    also have "\<dots> = Some (Inr (st1\<lparr>records := butlast (records st1)\<rparr>))"
      using ne by (simp add: c del_scope_def pop_record_def)
    finally show ?thesis using run by simp
  qed
  have change: "int (length (butlast (records st1))) - int (length (records st))
                = int (length (records st1)) - int (length (records (push_record st0 (new_record ct))))"
    if ne: "records st1 \<noteq> []"
    using ne len by (cases "records st1") simp_all
  show ?thesis using run len closing change by auto
qed

lemma c10_parse:
  "parse_input token 0 [''if x = 1 {'', ''x = 2'', ''}'', ''x = x + 1''] 0
     = Inr (([c10_cond, ASSIGN_VAR ''x'' ''x + 1''], [(0, 1, 0), (1, 1, 3)]), 0)"
  by code_simp

lemma c10_true:
  "eval_condition (c10_stack 1 0) ''x'' ''='' ''1'' = Inr (True, c10_stack 1 0)
   \<and> run_lines 0 [ASSIGN_VAR ''x'' ''2'', SCOPE_DEL False] [(0, 1, 1)] 0
        (push_record (c10_stack 1 0) (new_record (Member CBV))) (Member CBV)
       = Some (Inr (c10_stack 2 1))"
  by code_simp

lemma c10_false:
  "eval_condition (c10_stack 3 0) ''x'' ''='' ''1'' = Inr (False, c10_stack 3 0)"
  by code_simp

text \<open>With \<open>x = 1\<close> the branch runs and one record is left, as before; with \<open>x = 3\<close>
  there is no branch to run and two records are left.\<close>

theorem conditional_record_count_witness:
  "apply_cmd (Suc 0) c10_cond (c10_stack 1 0) (Member CBV) = Some (Inr (c10_stack 2 0))
   \<and> length (records (c10_stack 2 0)) = length (records (c10_stack 1 0))
   \<and> apply_cmd (Suc 0) c10_cond (c10_stack 3 0) (Member CBV) = Some (Inr (c10_stack 3 1))
   \<and> length (records (c10_stack 3 1)) = length (records (c10_stack 3 0)) + 1"
proof -
  have t: "apply_cmd (Suc 0) c10_cond (c10_stack 1 0) (Member CBV) = Some (Inr (c10_stack 2 0))"
    using conditional_record_count
      [where st = "c10_stack 1 0" and left = "''x''" and c = "''=''" and right = "''1''"
         and b = True and ?st0.0 = "c10_stack 1 0"
         and ifc = "([ASSIGN_VAR ''x'' ''2'', SCOPE_DEL False], [(0, 1, 1), (1, 1, 2)])"
         and ec = "([], [])"
         and cmds = "[ASSIGN_VAR ''x'' ''2'', SCOPE_DEL False]" and lines = "[(0, 1, 1), (1, 1, 2)]"
         and fuel = 0 and ct = "Member CBV"
         and body = "[ASSIGN_VAR ''x'' ''2'']" and ld = "[(0, 1, 1)]" and cl = 1 and ln = 2
         and ?st1.0 = "c10_stack 2 1"]
      c10_true
    by (simp add: c10_cond_def line_counts_def c10_stack_def)
  have f: "apply_cmd (Suc 0) c10_cond (c10_stack 3 0) (Member CBV) = Some (Inr (c10_stack 3 1))"
    using conditional_record_count
      [where st = "c10_stack 3 0" and left = "''x''" and c = "''=''" and right = "''1''"
         and b = False and ?st0.0 = "c10_stack 3 0"
         and ifc = "([ASSIGN_VAR ''x'' ''2'', SCOPE_DEL False], [(0, 1, 1), (1, 1, 2)])"
         and ec = "([], [])" and cmds = "[]" and lines = "[]"
         and fuel = 0 and ct = "Member CBV"]
      c10_false
    by (simp add: c10_cond_def c10_stack_def push_record_def)
  show ?thesis using t f by (simp add: c10_stack_def)
qed

lemma c10_nested_parse:
  "parse_input token 0 [''if x = 1 {'', ''if x = 2 {'', ''x = 5'', ''}'', ''}'', ''x = 7''] 0
     = Inr (([c10_nested, ASSIGN_VAR ''x'' ''7''], [(0, 1, 0), (1, 1, 5)]), 0)"
  by code_simp

text \<open>
  C10 as stated fails: the condition of \<open>c10_nested\<close> is true on \<open>c10_stack 1 0\<close>,
  and after the conditional there are two records where there was one. The
  conditional without \<open>else\<close> in its branch leaves a record, and the closing brace
  of the branch pops that one.
\<close>

theorem nested_conditional_grows:
  "eval_condition (c10_stack 1 0) ''x'' ''='' ''1'' = Inr (True, c10_stack 1 0)
   \<and> apply_cmd (Suc (Suc 0)) c10_nested (c10_stack 1 0) (Member CBV) = Some (Inr (c10_stack 1 1))
   \<and> length (records (c10_stack 1 1)) = length (records (c10_stack 1 0)) + 1"
  by code_simp

subsection \<open>Source lines and their shapes\<close>

text \<open>
  C5, as the code has it. A line that has none of the shapes adds no command; it
  adds one entry to the line index, with the count 0, and parsing goes on with the
  next line. No error is reported.
\<close>

theorem unmatched_line_adds_nothing:
  "i < length input \<Longrightarrow> classify (input ! i) = NoShape \<Longrightarrow>
   parse_loop gen input lineno i commands clines ctr =
   parse_loop gen input lineno (i + 1) commands
     (clines @ [(int (length commands) - 1, 0, lineno + int i)]) ctr"
  by (subst parse_loop.simps) (simp add: cline_def)

lemma call_statement_shape: "classify ''inc(a)'' = NoShape"
  by code_simp

theorem unmatched_line_adds_nothing_witness:
  "classify ([''int a = 1'', ''inc(a)''] ! 1) = NoShape
   \<and> parse_loop token [''int a = 1'', ''inc(a)''] 0 1
        [DECLARE_VAR ''a'', ASSIGN_VAR ''a'' ''1''] [(1, 2, 0)] 0
     = parse_loop token [''int a = 1'', ''inc(a)''] 0 2
        [DECLARE_VAR ''a'', ASSIGN_VAR ''a'' ''1''] [(1, 2, 0), (1, 0, 1)] 0"
proof -
  have c: "classify ([''int a = 1'', ''inc(a)''] ! 1) = NoShape"
    using call_statement_shape by simp
  have i: "(1::nat) < length [''int a = 1'', ''inc(a)'']"
    by simp
  show ?thesis
    using unmatched_line_adds_nothing [OF i c, of token 0
        "[DECLARE_VAR ''a'', ASSIGN_VAR ''a'' ''1'']" "[(1, 2, 0)]" 0] c
    by (simp add: numeral_2_eq_2)
qed

text \<open>
  C5 as stated fails: the line \<open>inc(a)\<close>, a call that is a statement of its own, has
  none of the shapes, and the parser returns normally, with no command for it.
\<close>

theorem unmatched_line_is_skipped:
  "classify ''inc(a)'' = NoShape
   \<and> parse_input token 0 [''inc(a)''] 0 = Inr (([], [(- 1, 0, 0)]), 0)"
  by code_simp

text \<open>
  C4 on the code. Of the eleven spellings in \<open>cond_lookup\<close> the parser takes four
  as written (\<open>=\<close>, \<open>!=\<close>, \<open><\<close>, \<open>>\<close>). With \<open>==\<close>, \<open><=\<close>, \<open>=<\<close>,
  \<open>>=\<close>, \<open>=>\<close> the pattern \<open>r_cond\<close> matches one character at a time,
  \<open>re.split\<close> gives three pieces and the unpacking \<open>left, right = ...\<close> raises
  \<open>ValueError\<close>. A line with \<open>\=\<close> does not match the pattern of \<open>if\<close> and is
  taken for the declaration of a variable \<open>x\<close>. A line with \<open>/=\<close> is taken for
  \<open>=\<close> with the left side \<open>x /\<close>.
\<close>

theorem conditional_spellings_rejected:
  "map (\<lambda>c. parse_input token 0 [''if x '' @ c @ '' y {'', ''x = 1'', ''}'', ''x = 2''] 0)
       [''=='', ''<='', ''=<'', ''>='', ''=>'']
     = replicate 5 (Inl ValueError)
   \<and> classify (''if x '' @ [CHR 0x5C, CHR ''=''] @ '' y {'') = Decl ''if x''
   \<and> parse_input token 0 [''if x /= y {'', ''x = 1'', ''}'', ''x = 2''] 0
     = Inr (([CONDITIONAL ''x /'' ''='' ''y''
                ([ASSIGN_VAR ''x'' ''1'', SCOPE_DEL False], [(0, 1, 1), (1, 1, 2)]) ([], []),
              ASSIGN_VAR ''x'' ''2''], [(0, 1, 0), (1, 1, 3)]), 0)"
  by code_simp

lemma conditional_spellings_accepted:
  "map (\<lambda>c. case classify (''if x '' @ c @ '' y {'') of IfStmt m \<Rightarrow> if_header m | sh \<Rightarrow> Inl NotModelled)
       [''='', ''!='', ''<'', ''>'']
     = [Inr (''x'', ''='', ''y''), Inr (''x'', ''!='', ''y''), Inr (''x'', ''<'', ''y''),
        Inr (''x'', ''>'', ''y'')]"
  by code_simp

subsection \<open>Running programs\<close>

lemma c1_parse:
  "parse_input token 0 c1_program 0 =
     Inr (([DECLARE_FUNC ''inc'' ([ASSIGN_VAR ''n'' ''n + 1''], [(0, 1, 1)]) [''n''],
            DECLARE_VAR ''a'', ASSIGN_VAR ''a'' ''1''],
           [(0, 1, 0), (2, 2, 3), (2, 0, 4)]), 0)"
  by code_simp

lemma c1_toplevel: "run_source fuel type ct c1_program = Some (Inl IndexError)"
  by (simp add: run_source_def c1_parse execute_program_def RuntimeStack_init_def
      declare_function_def declare_value_def)

lemma c1_block: "run_source fuel type (Member CBVR) (''{'' # c1_program) = Some (Inr (c1_final type))"
  by (induct type) code_simp+

lemma c1_copy_back:
  "run_source (Suc fuel) True (Member CBVR) c1_assigned = Some (Inl TypeError)
   \<and> run_source (Suc fuel) False (Member CBVR) c1_assigned = Some (Inl AttributeError)"
  by code_simp

text \<open>
  C1 on the code, under CBVR. The program as written stops at its first command: the
  stack of \<open>RuntimeStack.__init__\<close> has no record, and \<open>declare_value\<close> indexes the
  last one. Inside a block the program ends with \<open>a = 1\<close>: the line \<open>inc(a)\<close> has
  none of the shapes of \<open>parse_input\<close> and adds no command, so \<open>inc\<close> is not called.
  With the call written \<open>int r = inc(a)\<close>, \<open>value_result\<close> raises: \<open>TypeError\<close>
  with \<open>typing\<close> true (\<open>func_record.get_value(param)\<close> lacks an argument), and
  \<open>AttributeError\<close> with \<open>typing\<close> false (inside the call the name \<open>inc\<close> is not
  found, the search stopping at the key \<open>inc\<close>, and \<open>None\<close> has no \<open>params\<close>).
  In no case does \<open>a\<close> become 2.
\<close>

theorem cbvr_increment_program:
  "(\<forall>fuel type. run_source fuel type (Member CBVR) c1_program = Some (Inl IndexError))
   \<and> (\<forall>fuel type. run_source fuel type (Member CBVR) (''{'' # c1_program) = Some (Inr (c1_final type))
        \<and> get_value (c1_final type) ''a'' = Inr (VInt 1, c1_final type))
   \<and> (\<forall>fuel. run_source (Suc fuel) True (Member CBVR) c1_assigned = Some (Inl TypeError)
        \<and> run_source (Suc fuel) False (Member CBVR) c1_assigned = Some (Inl AttributeError))"
proof -
  have a: "get_value (c1_final type) ''a'' = Inr (VInt 1, c1_final type)" for type
    by (induct type) code_simp+
  show ?thesis
    using c1_toplevel c1_block c1_copy_back a by simp
qed

text \<open>
  The rule of the record for a search with \<open>fname\<close>: a key that does not stand
  before the key \<open>fname\<close> is not found, whatever follows \<open>fname\<close>.
\<close>

lemma scan_stops_at_function:
  "v \<notin> set ks \<Longrightarrow> \<not> found_before (ks @ f # ks') v f"
  by (induction ks) auto

text \<open>
  C2 on the code. The user answers \<open>S\<close> (static) and runs \<open>c2_program\<close>, where \<open>v\<close>
  is declared in the block of \<open>f\<close> after \<open>f\<close>. \<open>main\<close> builds a stack whose
  \<open>typing\<close> counts as true, the branch of \<open>get_value\<close> for an active call is not
  taken, and the read of \<open>v\<close> in the body of \<open>f\<close> finds the 5 of that binding: the
  call returns 5. On a stack with \<open>typing\<close> false the same commands return
  \<open>None\<close> from the call: there the search of the declaring record stops at \<open>f\<close>.
\<close>

theorem static_answer_reads_later_binding:
  "(\<forall>fuel answer.
      main token (Suc fuel) answer True c2_program
        = Some (Inr \<lparr>records = [], typing = True, calltype = Boolean True, ret = VNone,
                    func_stack = [], func_returns = [(token 0, VInt 5)]\<rparr>))
   \<and> (\<forall>fuel.
      run_source (Suc fuel) False (Member CBV) c2_program
        = Some (Inr \<lparr>records = [], typing = False, calltype = Member CBV, ret = VNone,
                    func_stack = [], func_returns = [(token 0, VNone)]\<rparr>))"
proof -
  have m: "main token (Suc fuel) answer True c2_program
        = Some (Inr \<lparr>records = [], typing = True, calltype = Boolean True, ret = VNone,
                    func_stack = [], func_returns = [(token 0, VInt 5)]\<rparr>)" for fuel answer
    unfolding main_def by code_simp
  have r: "run_source (Suc fuel) False (Member CBV) c2_program
        = Some (Inr \<lparr>records = [], typing = False, calltype = Member CBV, ret = VNone,
                    func_stack = [], func_returns = [(token 0, VNone)]\<rparr>)" for fuel
    by code_simp
  show ?thesis using m r by simp
qed

lemma c3_translate: "translate_vars ''a'' = [Name ''a'']"
  by code_simp

lemma c3_bind:
  "apply_func_params st (new_record (Member CBNEED)) [''n''] [''a''] (Member CBNEED) = Inr (c3_record, st)"
  by (simp add: c3_translate c3_record_def new_record_def)

lemma c3_read: "ar_get_value c3_record ''n'' None = Inl NameError"
  by code_simp

lemma c3_run: "run_source (Suc fuel) type (Member CBNEED) c3_program = Some (Inl NameError)"
  by (induct type) code_simp+

text \<open>
  C3 on the code. Under CBNEED the call \<open>f(a)\<close> binds \<open>n\<close> to the text
  \<open>stack.get_value('a')\<close>. Reading \<open>n\<close> evaluates the text inside \<open>obtain\<close>, where
  no \<open>stack\<close> is bound: the read raises \<open>NameError\<close>, the binding is not
  overwritten, and the program ends there.
\<close>

theorem cbneed_deferred_read_raises:
  "(\<forall>st. apply_func_params st (new_record (Member CBNEED)) [''n''] [''a''] (Member CBNEED)
           = Inr (c3_record, st))
   \<and> ar_get_value c3_record ''n'' None = Inl NameError
   \<and> (\<forall>fuel type. run_source (Suc fuel) type (Member CBNEED) c3_program = Some (Inl NameError))"
  using c3_bind c3_read c3_run by simp

text \<open>A deferred expression without names is evaluated once: the first read
  overwrites the binding with the value, and the second read returns it.\<close>

lemma cbneed_literal_memoised:
  "ar_get_value c3_literal ''n'' None
     = Inr (VInt 5, c3_literal\<lparr>ar_record := [(''n'', VInt 5)]\<rparr>)
   \<and> ar_get_value (c3_literal\<lparr>ar_record := [(''n'', VInt 5)]\<rparr>) ''n'' None
     = Inr (VInt 5, c3_literal\<lparr>ar_record := [(''n'', VInt 5)]\<rparr>)"
  by code_simp

lemma c6_block: "run_source fuel type (Member CBV) (''{'' # c6_program) = Some (Inr (c6_final type))"
  by (induct type) code_simp+

lemma c6_resolve: "get_value (c6_final type) ''z'' = Inr (VInt 7, c6_final type)"
  by (induct type) code_simp+

text \<open>
  C6, as the code has it. Inside a block (after the line \<open>{\<close>) the three lines
  run from the initial stack to a normal end, under CBV and with either value of
  \<open>typing\<close>, and \<open>z\<close> then resolves to 7.
\<close>

theorem block_sum_program:
  "\<forall>fuel type.
     run_source fuel type (Member CBV) (''{'' # c6_program) = Some (Inr (c6_final type))
     \<and> get_value (c6_final type) ''z'' = Inr (VInt 7, c6_final type)"
  using c6_block c6_resolve by simp

text \<open>
  C6 as stated fails: run from the initial stack, which has no record, the first
  declaration raises \<open>IndexError\<close>.
\<close>

theorem toplevel_declaration_raises:
  "run_source 1 True (Member CBV) c6_program = Some (Inl IndexError)
   \<and> run_source 1 False (Member CBV) c6_program = Some (Inl IndexError)"
  by code_simp

lemma c8_parse:
  "parse_input token 0 [''int z = f(1) + f(2)''] 0 =
     Inr (([FUNC_CALL ''f'' [''1''], STORE_FUNC_RET (token 0), VALUE_RESULT ''f'' [''1''], SCOPE_DEL True,
            FUNC_CALL ''f'' [''2''], STORE_FUNC_RET (token 1), VALUE_RESULT ''f'' [''2''], SCOPE_DEL True,
            DECLARE_VAR ''z'', ASSIGN_VAR ''z'' (quote (token 0) @ '' + '' @ quote (token 1))],
           [(9, 10, 0)]), 2)"
  by code_simp

lemma c8_translate:
  "translate_vars (quote (token 0) @ '' + '' @ quote (token 1))
     = [Quoted (quote (token 0) @ '' + '' @ quote (token 1))]
   \<and> quoted_key (quote (token 0) @ '' + '' @ quote (token 1)) = Some (token 0 @ token 1)"
  by code_simp

lemma c8_run: "run_source (Suc fuel) type (Member CBV) c8_program = Some (Inl KeyError)"
  by (induct type) code_simp+

lemma c8_nested:
  "parse_input token 0 [''int z = f(g(h(1)))''] 0 =
     Inr (([FUNC_CALL ''h'' [''1''], STORE_FUNC_RET (token 2), VALUE_RESULT ''h'' [''1''], SCOPE_DEL True,
            FUNC_CALL ''g'' [''h(1)''], STORE_FUNC_RET (token 1), VALUE_RESULT ''g'' [''h(1)''],
            SCOPE_DEL True,
            FUNC_CALL ''f'' [''g('' @ quote (token 2) @ '')''], STORE_FUNC_RET (token 0),
            VALUE_RESULT ''f'' [''g('' @ quote (token 2) @ '')''], SCOPE_DEL True,
            DECLARE_VAR ''z'', ASSIGN_VAR ''z'' (quote (token 0))],
           [(13, 14, 0)]), 3)"
  by code_simp

text \<open>
  C8 on the code. For \<open>int z = f(1) + f(2)\<close> the parser stores the two results under
  the tokens \<open>token 0\<close> and \<open>token 1\<close> and rewrites the expression to the two quoted
  tokens joined by \<open>+\<close>. The first pattern of \<open>translate_vars\<close>, \<open>".+"\<close>, runs from
  the first quote to the last, so the expression becomes one call of \<open>func_ret\<close>
  whose argument is the two tokens concatenated: a key that no \<open>STORE_FUNC_RET\<close>
  has stored, and the read raises \<open>KeyError\<close>. For calls nested three deep the text
  of the middle call is left as it was (\<open>h(1)\<close>, not the token of \<open>h\<close>), and the
  text of the outer call keeps a call (\<open>g("...")\<close>).
\<close>

theorem sibling_calls_read_unstored_key:
  "parse_input token 0 [''int z = f(1) + f(2)''] 0 =
     Inr (([FUNC_CALL ''f'' [''1''], STORE_FUNC_RET (token 0), VALUE_RESULT ''f'' [''1''], SCOPE_DEL True,
            FUNC_CALL ''f'' [''2''], STORE_FUNC_RET (token 1), VALUE_RESULT ''f'' [''2''], SCOPE_DEL True,
            DECLARE_VAR ''z'', ASSIGN_VAR ''z'' (quote (token 0) @ '' + '' @ quote (token 1))],
           [(9, 10, 0)]), 2)
   \<and> translate_vars (quote (token 0) @ '' + '' @ quote (token 1))
       = [Quoted (quote (token 0) @ '' + '' @ quote (token 1))]
   \<and> quoted_key (quote (token 0) @ '' + '' @ quote (token 1)) = Some (token 0 @ token 1)
   \<and> (\<forall>fuel type. run_source (Suc fuel) type (Member CBV) c8_program = Some (Inl KeyError))
   \<and> (\<exists>cmds ld n. parse_input token 0 [''int z = f(g(h(1)))''] 0 = Inr ((cmds, ld), n)
        \<and> cmds ! 4 = FUNC_CALL ''g'' [''h(1)''])"
  using c8_parse c8_translate c8_run c8_nested by simp

end
